theory Spec2Isabelle
  imports Complex_Main "HOL-Library.List_Lexorder" "HOL-Library.Char_ord"
begin

section \<open>JavaScript numbers and exceptions\<close>

text \<open>
  A JavaScript number is a finite binary64 value, \<open>NaN\<close> or an infinity. Finite values
  are kept as rationals (the two zeros are not told apart). The rounding of binary64
  division and multiplication is not computed here: both operations are fields of the
  environment below (\<open>num_div\<close>, \<open>num_mul\<close>), and every theorem holds whatever they
  return. \<open>Math.round\<close>, the comparisons and the truth test are exact on binary64
  values and are defined outright.
\<close>

datatype jsnum = Num rat | NaN | PosInf | NegInf

fun js_ge :: "jsnum \<Rightarrow> jsnum \<Rightarrow> bool" where
  "js_ge NaN y = False"
| "js_ge x NaN = False"
| "js_ge PosInf y = True"
| "js_ge x NegInf = True"
| "js_ge (Num a) (Num b) = (b \<le> a)"
| "js_ge x y = False"

fun js_gt :: "jsnum \<Rightarrow> jsnum \<Rightarrow> bool" where
  "js_gt NaN y = False"
| "js_gt x NaN = False"
| "js_gt PosInf PosInf = False"
| "js_gt PosInf y = True"
| "js_gt NegInf y = False"
| "js_gt (Num a) (Num b) = (b < a)"
| "js_gt (Num a) NegInf = True"
| "js_gt (Num a) PosInf = False"

text \<open>\<open>Math.round\<close>: the nearest integer, a tie going up.\<close>

fun Math_round :: "jsnum \<Rightarrow> jsnum" where
  "Math_round (Num q) = Num (of_int \<lfloor>q + 1 / 2\<rfloor>)"
| "Math_round x = x"

text \<open>The truth test of \<open>x || 0\<close> and \<open>!x\<close> on a number: zero and \<open>NaN\<close> are false.\<close>

fun falsy :: "jsnum \<Rightarrow> bool" where
  "falsy (Num q) = (q = 0)"
| "falsy NaN = True"
| "falsy x = False"

text \<open>
  A property that may be missing from an object is an option; \<open>None\<close> is
  \<open>undefined\<close>. \<open>or_zero\<close> is \<open>x || 0\<close>, \<open>to_number\<close> the conversion a
  comparison applies to its operand.
\<close>

fun or_zero :: "jsnum option \<Rightarrow> jsnum" where
  "or_zero None = Num 0"
| "or_zero (Some x) = (if falsy x then Num 0 else x)"

fun to_number :: "jsnum option \<Rightarrow> jsnum" where
  "to_number None = NaN"
| "to_number (Some x) = x"

datatype error = Error (message: string)

section \<open>Programs: state passing with exceptions\<close>

text \<open>
  A statement of the source is a function from the state to an outcome and the next
  state. \<open>Inl\<close> is a thrown exception, which skips the rest of a block until a
  \<open>try_catch\<close> handles it.
\<close>

type_synonym ('s, 'a) prog = "'s \<Rightarrow> (error + 'a) \<times> 's"

definition ret :: "'a \<Rightarrow> ('s, 'a) prog" where
  "ret x = (\<lambda>s. (Inr x, s))"

definition throw :: "error \<Rightarrow> ('s, 'a) prog" where
  "throw e = (\<lambda>s. (Inl e, s))"

definition bind :: "('s, 'a) prog \<Rightarrow> ('a \<Rightarrow> ('s, 'b) prog) \<Rightarrow> ('s, 'b) prog" where
  "bind m f = (\<lambda>s. case m s of (Inl e, s') \<Rightarrow> (Inl e, s') | (Inr x, s') \<Rightarrow> f x s')"

definition try_catch :: "('s, 'a) prog \<Rightarrow> (error \<Rightarrow> ('s, 'a) prog) \<Rightarrow> ('s, 'a) prog" where
  "try_catch m h = (\<lambda>s. case m s of (Inl e, s') \<Rightarrow> h e s' | (Inr x, s') \<Rightarrow> (Inr x, s'))"

fun block :: "('s, unit) prog list \<Rightarrow> ('s, unit) prog" where
  "block [] = ret ()"
| "block (p # ps) = bind p (\<lambda>_. block ps)"

definition whenever :: "bool \<Rightarrow> ('s, unit) prog \<Rightarrow> ('s, unit) prog" where
  "whenever c p = (if c then p else ret ())"

text \<open>The outcome of an awaited call of a collaborator: its value, or its rejection.\<close>

definition await :: "error + 'a \<Rightarrow> ('s, 'a) prog" where
  "await r = (\<lambda>s. (r, s))"

text \<open>\<open>xs[0].field\<close>: reading a property of \<open>undefined\<close> throws a TypeError.\<close>

definition first :: "'a list \<Rightarrow> ('s, 'a) prog" where
  "first xs = (case xs of [] \<Rightarrow> throw (Error ''Cannot read properties of undefined'')
               | x # _ \<Rightarrow> ret x)"

section \<open>Data model\<close>

datatype kind = RAM | CPU | Disk | Swap | Load | Network

datatype gauge =
  Gauge_ramUsage | Gauge_cpuUsage | Gauge_diskUsage | Gauge_swapUsage
  | Gauge_loadAverage | Gauge_networkRx | Gauge_networkTx

text \<open>
  The text of a usage value is out of scope; a value is kept as the template literal
  that renders it and its arguments: \<open>`${x}%`\<close>, the load line (one-minute load, load
  per core) and the network line (Rx, Tx).
\<close>

datatype usage = Percent jsnum | LoadFigures jsnum jsnum | NetworkFigures jsnum jsnum

record config =
  monitoring_threshold :: rat
  monitoring_checkInterval :: int
  cpu_monitor :: bool
  cpu_threshold :: rat
  disk_monitor :: bool
  disk_threshold :: rat
  disk_path :: string
  swap_monitor :: bool
  swap_threshold :: rat
  load_monitor :: bool
  load_threshold :: rat
  network_monitor :: bool
  network_threshold :: rat
  network_interface :: string
  database_enabled :: bool
  prometheus_enabled :: bool

record mem_info =
  total :: jsnum
  used :: jsnum
  swaptotal :: jsnum
  swapused :: jsnum

record fs_size =
  mount :: string
  use :: jsnum

record network_stats =
  rx_bytes :: int
  tx_bytes :: int

record system_info =
  hostname :: string
  ip :: string
  os :: string
  kernel :: string
  uptime :: string
  ramUsage :: jsnum
  totalRam :: string
  cpuUsage :: jsnum
  diskUsage :: jsnum
  totalDisk :: string

text \<open>The metrics object of a tick; a key may be missing from an object passed to a sink.\<close>

record metrics =
  ram :: "jsnum option"
  cpu :: "jsnum option"
  disk :: "jsnum option"
  swap :: "jsnum option"
  load :: "jsnum option"
  network :: "(jsnum \<times> jsnum) option"

text \<open>The arguments of \<open>db.storeMetrics\<close> and \<open>db.storeAlert\<close>.\<close>

record metric_record =
  m_timestamp :: string
  m_hostname :: string
  m_ip_address :: string
  m_ram_usage :: jsnum
  m_cpu_usage :: jsnum
  m_disk_usage :: jsnum
  m_swap_usage :: jsnum
  m_load_average :: jsnum
  m_network_rx :: jsnum
  m_network_tx :: jsnum
  m_extra_data :: "string option"

record alert_record =
  a_timestamp :: string
  a_hostname :: string
  a_alert_type :: kind
  a_value :: usage
  a_message :: string
  a_sent_successfully :: bool

datatype status_line =
  LastCheck string
  | RamLine jsnum
  | CpuLine jsnum
  | DiskLine string jsnum
  | SwapLine jsnum
  | LoadLine jsnum jsnum
  | NetworkLine string jsnum jsnum

section \<open>Observable behaviour\<close>

datatype level = LDebug | LInfo | LWarn | LError

text \<open>One constructor for each message the modelled functions log, with its arguments.\<close>

datatype logmsg =
  ErrorChecking kind string
  | AlertRateLimited kind int
  | Separator
  | AlertText string
  | SendingMessage kind
  | AlertSent kind
  | ErrorSending nat nat string
  | FailedToSend nat
  | BotTokenHint
  | ChatId
  | ErrorInSendTelegramAlert string
  | MetricsStored
  | FailedStoreMetrics string
  | AlertStored kind
  | FailedStoreAlert string
  | PrometheusUpdated
  | FailedPrometheus string
  | ErrorStatusFile string
  | HighUsage kind usage
  | ErrorInMonitoring string

text \<open>
  Every call of a collaborator is an event of the trace, whether it returns or throws.
  \<open>Dispatch\<close> marks the entry of \<open>sendTelegramAlert\<close> with its two arguments.
\<close>

datatype event =
  Log level logmsg
  | Dispatch kind usage
  | FormatAlert kind usage
  | BotSend string
  | Sleep nat
  | CounterInc kind
  | GaugeSet gauge jsnum
  | DbStoreMetrics metric_record
  | DbStoreAlert alert_record
  | WriteStatus "status_line list"

record world =
  lastAlertTimes :: "kind \<Rightarrow> int"
  trace :: "event list"

text \<open>The locals \<open>retry\<close> and \<open>success\<close> of \<open>sendTelegramAlert\<close>, assigned inside its loop.\<close>

record frame = world +
  retry :: nat
  success :: bool

datatype site = AtTick | AtStoreMetrics | AtStatusFile | AtAlert kind | AtStoreAlert kind

text \<open>
  The environment of one tick: the configuration, the two handles (\<open>db\<close> and
  \<open>prometheus\<close> are null or not), the arithmetic of the runtime, and what each
  collaborator answers when it is called. A sent message is told apart by the kind of
  the alert and the value of \<open>retry\<close> at the call.
\<close>

record env =
  cfg :: config
  db :: bool
  prometheus :: bool
  num_div :: "jsnum \<Rightarrow> jsnum \<Rightarrow> jsnum"
  num_mul :: "jsnum \<Rightarrow> jsnum \<Rightarrow> jsnum"
  si_mem :: "kind \<Rightarrow> error + mem_info"
  si_currentLoad :: "error + jsnum"
  si_fsSize :: "error + fs_size list"
  os_loadavg :: "error + jsnum"
  os_cpus_length :: nat
  si_networkStats :: "nat \<Rightarrow> error + network_stats list"
  getSystemInfo :: "site \<Rightarrow> system_info"
  isoTimestamp :: "site \<Rightarrow> string"
  dateNow :: "kind \<Rightarrow> int"
  formatAlert :: "kind \<Rightarrow> error + string"
  bot_sendMessage :: "kind \<Rightarrow> nat \<Rightarrow> error option"
  counter_inc :: "kind \<Rightarrow> error option"
  gauge_set :: "gauge \<Rightarrow> error option"
  db_storeMetrics :: "error option"
  db_storeAlert :: "kind \<Rightarrow> error option"
  fs_writeFileSync :: "error option"

definition emit :: "event \<Rightarrow> ('z world_scheme, unit) prog" where
  "emit e = (\<lambda>w. (Inr (), w\<lparr>trace := trace w @ [e]\<rparr>))"

definition logger :: "level \<Rightarrow> logmsg \<Rightarrow> ('z world_scheme, unit) prog" where
  "logger l m = emit (Log l m)"

definition call :: "event \<Rightarrow> error option \<Rightarrow> ('z world_scheme, unit) prog" where
  "call e failure = bind (emit e) (\<lambda>_. case failure of None \<Rightarrow> ret () | Some err \<Rightarrow> throw err)"

definition sleep :: "nat \<Rightarrow> ('z world_scheme, unit) prog" where
  "sleep ms = emit (Sleep ms)"

section \<open>Metric readers (systemUtils.js)\<close>

definition checkRamUsage :: "env \<Rightarrow> ('z world_scheme, jsnum) prog" where
  "checkRamUsage env =
     try_catch
       (bind (await (si_mem env RAM)) (\<lambda>memInfo.
          ret (Math_round (num_mul env (num_div env (used memInfo) (total memInfo)) (Num 100)))))
       (\<lambda>error. bind (logger LError (ErrorChecking RAM (message error))) (\<lambda>_. ret (Num 0)))"

definition checkCpuUsage :: "env \<Rightarrow> ('z world_scheme, jsnum) prog" where
  "checkCpuUsage env =
     (if \<not> cpu_monitor (cfg env) then ret (Num 0)
      else try_catch
        (bind (await (si_currentLoad env)) (\<lambda>currentLoad. ret (Math_round currentLoad)))
        (\<lambda>error. bind (logger LError (ErrorChecking CPU (message error))) (\<lambda>_. ret (Num 0))))"

definition checkDiskUsage :: "env \<Rightarrow> ('z world_scheme, jsnum) prog" where
  "checkDiskUsage env =
     (if \<not> disk_monitor (cfg env) then ret (Num 0)
      else try_catch
        (bind (await (si_fsSize env)) (\<lambda>fsSize.
           bind (case find (\<lambda>fs. mount fs = disk_path (cfg env)) fsSize of
                   Some d \<Rightarrow> ret d | None \<Rightarrow> first fsSize) (\<lambda>diskInfo.
           ret (Math_round (use diskInfo)))))
        (\<lambda>error. bind (logger LError (ErrorChecking Disk (message error))) (\<lambda>_. ret (Num 0))))"

definition checkSwapUsage :: "env \<Rightarrow> ('z world_scheme, jsnum) prog" where
  "checkSwapUsage env =
     (if \<not> swap_monitor (cfg env) then ret (Num 0)
      else try_catch
        (bind (await (si_mem env Swap)) (\<lambda>memInfo.
           if swaptotal memInfo = Num 0 then ret (Num 0)
           else ret (Math_round
                  (num_mul env (num_div env (swapused memInfo) (swaptotal memInfo)) (Num 100)))))
        (\<lambda>error. bind (logger LError (ErrorChecking Swap (message error))) (\<lambda>_. ret (Num 0))))"

definition checkLoadAverage :: "env \<Rightarrow> ('z world_scheme, jsnum) prog" where
  "checkLoadAverage env =
     (if \<not> load_monitor (cfg env) then ret (Num 0)
      else try_catch
        (bind (await (os_loadavg env)) (\<lambda>load1.
           let cpuCount = Num (of_nat (os_cpus_length env));
               loadPerCore = num_div env load1 cpuCount
           in ret (Math_round (num_mul env loadPerCore (Num 100)))))
        (\<lambda>error. bind (logger LError (ErrorChecking Load (message error))) (\<lambda>_. ret (Num 0))))"

text \<open>
  The byte counters are integers below \<open>2^53\<close>: their difference, its product with 8
  and the two divisions by 1024 are exact in binary64, so the rates are computed in
  exact arithmetic.
\<close>

definition rate :: "int \<Rightarrow> int \<Rightarrow> jsnum" where
  "rate bytes2 bytes1 = Num (of_int ((bytes2 - bytes1) * 8) / 1024 / 1024)"

definition checkNetworkUsage :: "env \<Rightarrow> ('z world_scheme, jsnum \<times> jsnum) prog" where
  "checkNetworkUsage env =
     (if \<not> network_monitor (cfg env) then ret (Num 0, Num 0)
      else try_catch
        (bind (await (si_networkStats env 0)) (\<lambda>networkStats1.
         bind (sleep 1000) (\<lambda>_.
         bind (await (si_networkStats env 1)) (\<lambda>networkStats2.
         bind (first networkStats2) (\<lambda>s2.
         bind (first networkStats1) (\<lambda>s1.
         let rxRate = rate (rx_bytes s2) (rx_bytes s1);
             txRate = rate (tx_bytes s2) (tx_bytes s1)
         in ret (rxRate, txRate)))))))
        (\<lambda>error. bind (logger LError (ErrorChecking Network (message error)))
                    (\<lambda>_. ret (Num 0, Num 0))))"

section \<open>Notifier dispatcher (app.js)\<close>

definition modify :: "('s \<Rightarrow> 's) \<Rightarrow> ('s, unit) prog" where
  "modify g = (\<lambda>s. (Inr (), g s))"

definition storeAlert ::
  "env \<Rightarrow> kind \<Rightarrow> usage \<Rightarrow> string \<Rightarrow> bool \<Rightarrow> ('z world_scheme, bool) prog" where
  "storeAlert env alertType v msg sentSuccessfully =
     (if \<not> db env \<or> \<not> database_enabled (cfg env) then ret False
      else try_catch
        (let timestamp = isoTimestamp env (AtStoreAlert alertType);
             systemInfo = getSystemInfo env (AtStoreAlert alertType)
         in bind (call (DbStoreAlert
                    \<lparr>a_timestamp = timestamp, a_hostname = hostname systemInfo,
                     a_alert_type = alertType, a_value = v, a_message = msg,
                     a_sent_successfully = sentSuccessfully\<rparr>)
                  (db_storeAlert env alertType)) (\<lambda>_.
            bind (logger LDebug (AlertStored alertType)) (\<lambda>_. ret True)))
        (\<lambda>error. bind (logger LError (FailedStoreAlert (message error))) (\<lambda>_. ret False)))"

definition maxRetries :: nat where
  "maxRetries = 3"

text \<open>The body of the \<open>try\<close> inside the loop, and its \<open>catch\<close>.\<close>

definition sendAttemptTry :: "env \<Rightarrow> kind \<Rightarrow> usage \<Rightarrow> string \<Rightarrow> int \<Rightarrow> (frame, unit) prog" where
  "sendAttemptTry env alertType usageValue msg currentTime =
     block
       [logger LDebug (SendingMessage alertType),
        (\<lambda>f. call (BotSend msg) (bot_sendMessage env alertType (retry f)) f),
        logger LInfo (AlertSent alertType),
        modify (\<lambda>f. f\<lparr>success := True\<rparr>),
        modify (\<lambda>f. f\<lparr>lastAlertTimes := (lastAlertTimes f)(alertType := currentTime)\<rparr>),
        whenever (prometheus env \<and> prometheus_enabled (cfg env))
          (call (CounterInc alertType) (counter_inc env alertType)),
        whenever (db env \<and> database_enabled (cfg env))
          (bind (storeAlert env alertType usageValue msg True) (\<lambda>_. ret ()))]"

definition sendAttemptCatch :: "error \<Rightarrow> (frame, unit) prog" where
  "sendAttemptCatch error =
     block
       [modify (\<lambda>f. f\<lparr>retry := retry f + 1\<rparr>),
        (\<lambda>f. logger LWarn (ErrorSending (retry f) maxRetries (message error)) f),
        sleep 2000]"

definition sendAttempt :: "env \<Rightarrow> kind \<Rightarrow> usage \<Rightarrow> string \<Rightarrow> int \<Rightarrow> (frame, unit) prog" where
  "sendAttempt env alertType usageValue msg currentTime =
     try_catch (sendAttemptTry env alertType usageValue msg currentTime) sendAttemptCatch"

text \<open>\<open>while (retry < maxRetries && !success)\<close>\<close>

function sendLoop :: "env \<Rightarrow> kind \<Rightarrow> usage \<Rightarrow> string \<Rightarrow> int \<Rightarrow> (frame, unit) prog" where
  "sendLoop env alertType usageValue msg currentTime f =
     (if retry f < maxRetries \<and> \<not> success f then
        (case sendAttempt env alertType usageValue msg currentTime f of
           (Inl e, f') \<Rightarrow> (Inl e, f')
         | (Inr u, f') \<Rightarrow> sendLoop env alertType usageValue msg currentTime f')
      else (Inr (), f))"
  by pat_completeness auto

text \<open>\<open>let retry = 0; let success = false;\<close> and the statements in their scope.\<close>

definition with_locals :: "(frame, 'a) prog \<Rightarrow> (world, 'a) prog" where
  "with_locals p =
     (\<lambda>w. case p \<lparr>lastAlertTimes = lastAlertTimes w, trace = trace w, retry = 0, success = False\<rparr>
           of (r, f) \<Rightarrow> (r, \<lparr>lastAlertTimes = lastAlertTimes f, trace = trace f\<rparr>))"

text \<open>The statements after the loop: the report of a failure, and the result.\<close>

definition afterLoop :: "env \<Rightarrow> kind \<Rightarrow> usage \<Rightarrow> string \<Rightarrow> (frame, bool) prog" where
  "afterLoop env alertType usageValue msg =
     (\<lambda>f.
        (if \<not> success f then
           bind (block
              [logger LError (FailedToSend maxRetries),
               logger LError BotTokenHint,
               logger LError ChatId,
               whenever (db env \<and> database_enabled (cfg env))
                 (bind (storeAlert env alertType usageValue msg False) (\<lambda>_. ret ()))])
             (\<lambda>_. ret False)
         else ret True) f)"

text \<open>The outer \<open>try\<close> of \<open>sendTelegramAlert\<close>, entered once the alert has passed the rate limiter.\<close>

definition deliver :: "env \<Rightarrow> kind \<Rightarrow> usage \<Rightarrow> int \<Rightarrow> (world, bool) prog" where
  "deliver env alertType usageValue currentTime =
     try_catch
       (bind (emit (FormatAlert alertType usageValue)) (\<lambda>_.
        bind (await (formatAlert env alertType)) (\<lambda>msg.
        bind (logger LInfo Separator) (\<lambda>_.
        bind (logger LInfo (AlertText msg)) (\<lambda>_.
        with_locals
          (bind (sendLoop env alertType usageValue msg currentTime) (\<lambda>_.
           afterLoop env alertType usageValue msg)))))))
       (\<lambda>error. bind (logger LError (ErrorInSendTelegramAlert (message error)))
                   (\<lambda>_. ret False))"

text \<open>The rate limiter: the alert passes or is dropped.\<close>

definition rateLimit :: "env \<Rightarrow> kind \<Rightarrow> usage \<Rightarrow> int \<Rightarrow> int \<Rightarrow> (world, bool) prog" where
  "rateLimit env alertType usageValue currentTime alertInterval =
     (\<lambda>w.
        let timeSinceLastAlert = currentTime - lastAlertTimes w alertType in
        (if timeSinceLastAlert < alertInterval then
           bind (logger LDebug (AlertRateLimited alertType timeSinceLastAlert)) (\<lambda>_. ret False)
         else deliver env alertType usageValue currentTime) w)"

definition sendTelegramAlert :: "env \<Rightarrow> kind \<Rightarrow> usage \<Rightarrow> (world, bool) prog" where
  "sendTelegramAlert env alertType usageValue =
     bind (emit (Dispatch alertType usageValue)) (\<lambda>_.
     let currentTime = dateNow env alertType div 1000;
         alertInterval = monitoring_checkInterval (cfg env) * 10
     in
     bind (modify (\<lambda>w. if lastAlertTimes w alertType = 0
                        then w\<lparr>lastAlertTimes := (lastAlertTimes w)(alertType := 0)\<rparr> else w)) (\<lambda>_.
     rateLimit env alertType usageValue currentTime alertInterval))"

section \<open>Sink fan-out (app.js)\<close>

text \<open>
  The metrics object has the six standard keys only, so \<open>extraData\<close> stays empty and
  \<open>extraDataJson\<close> is null.
\<close>

definition storeMetrics :: "env \<Rightarrow> metrics \<Rightarrow> system_info \<Rightarrow> ('z world_scheme, bool) prog" where
  "storeMetrics env metrics systemInfo =
     (if \<not> db env \<or> \<not> database_enabled (cfg env) then ret False
      else try_catch
        (let (networkRx, networkTx) =
               (case network metrics of Some (rx, tx) \<Rightarrow> (rx, tx) | None \<Rightarrow> (Num 0, Num 0));
             extraDataJson = None;
             timestamp = isoTimestamp env AtStoreMetrics
         in bind (call (DbStoreMetrics
                    \<lparr>m_timestamp = timestamp, m_hostname = hostname systemInfo,
                     m_ip_address = ip systemInfo,
                     m_ram_usage = or_zero (ram metrics), m_cpu_usage = or_zero (cpu metrics),
                     m_disk_usage = or_zero (disk metrics), m_swap_usage = or_zero (swap metrics),
                     m_load_average = or_zero (load metrics),
                     m_network_rx = networkRx, m_network_tx = networkTx,
                     m_extra_data = extraDataJson\<rparr>)
                  (db_storeMetrics env)) (\<lambda>_.
            bind (logger LDebug MetricsStored) (\<lambda>_. ret True)))
        (\<lambda>error. bind (logger LError (FailedStoreMetrics (message error))) (\<lambda>_. ret False)))"

definition setGauge :: "env \<Rightarrow> gauge \<Rightarrow> jsnum \<Rightarrow> ('z world_scheme, unit) prog" where
  "setGauge env g v = call (GaugeSet g v) (gauge_set env g)"

definition updatePrometheusMetrics :: "env \<Rightarrow> metrics \<Rightarrow> ('z world_scheme, bool) prog" where
  "updatePrometheusMetrics env metrics =
     (if \<not> prometheus env \<or> \<not> prometheus_enabled (cfg env) then ret False
      else try_catch
        (bind (block
           [setGauge env Gauge_ramUsage (or_zero (ram metrics)),
            setGauge env Gauge_cpuUsage (or_zero (cpu metrics)),
            setGauge env Gauge_diskUsage (or_zero (disk metrics)),
            setGauge env Gauge_swapUsage (or_zero (swap metrics)),
            setGauge env Gauge_loadAverage (or_zero (load metrics)),
            (case network metrics of
               Some (rx, tx) \<Rightarrow>
                 block [setGauge env Gauge_networkRx rx, setGauge env Gauge_networkTx tx]
             | None \<Rightarrow> ret ()),
            logger LDebug PrometheusUpdated]) (\<lambda>_. ret True))
        (\<lambda>error. bind (logger LError (FailedPrometheus (message error))) (\<lambda>_. ret False)))"

text \<open>The lines of the status file, one pass over the keys of the metrics object.\<close>

definition statusContent :: "env \<Rightarrow> metrics \<Rightarrow> status_line list" where
  "statusContent env metrics =
     [LastCheck (isoTimestamp env AtStatusFile)]
     @ (case ram metrics of Some v \<Rightarrow> [RamLine v] | None \<Rightarrow> [])
     @ (case cpu metrics of
          Some v \<Rightarrow> if cpu_monitor (cfg env) then [CpuLine v] else [] | None \<Rightarrow> [])
     @ (case disk metrics of
          Some v \<Rightarrow> if disk_monitor (cfg env) then [DiskLine (disk_path (cfg env)) v] else []
        | None \<Rightarrow> [])
     @ (case swap metrics of
          Some v \<Rightarrow> if swap_monitor (cfg env) \<and> js_gt v (Num 0) then [SwapLine v] else []
        | None \<Rightarrow> [])
     @ (case load metrics of
          Some v \<Rightarrow>
            if load_monitor (cfg env) then
              (let loadPerCore = num_div env v (Num 100);
                   load1min = num_mul env loadPerCore (Num (of_nat (os_cpus_length env)))
               in [LoadLine load1min loadPerCore])
            else []
        | None \<Rightarrow> [])
     @ (case network metrics of
          Some (rxRate, txRate) \<Rightarrow>
            if network_monitor (cfg env) then
              [NetworkLine (if network_interface (cfg env) = [] then ''default''
                            else network_interface (cfg env)) rxRate txRate]
            else []
        | None \<Rightarrow> [])"

definition updateStatusFile :: "env \<Rightarrow> metrics \<Rightarrow> ('z world_scheme, unit) prog" where
  "updateStatusFile env metrics =
     try_catch
       (call (WriteStatus (statusContent env metrics)) (fs_writeFileSync env))
       (\<lambda>error. logger LError (ErrorStatusFile (message error)))"

section \<open>One tick of the monitoring task (app.js)\<close>

text \<open>The object literal of the six readings.\<close>

definition collectMetrics :: "env \<Rightarrow> (world, metrics) prog" where
  "collectMetrics env =
     bind (checkRamUsage env) (\<lambda>ramV.
     bind (checkCpuUsage env) (\<lambda>cpuV.
     bind (checkDiskUsage env) (\<lambda>diskV.
     bind (checkSwapUsage env) (\<lambda>swapV.
     bind (checkLoadAverage env) (\<lambda>loadV.
     bind (checkNetworkUsage env) (\<lambda>networkV.
     ret \<lparr>ram = Some ramV, cpu = Some cpuV, disk = Some diskV, swap = Some swapV,
          load = Some loadV, network = Some networkV\<rparr>))))))"

text \<open>The three sink actions.\<close>

definition fanOut :: "env \<Rightarrow> metrics \<Rightarrow> (world, unit) prog" where
  "fanOut env metrics =
     (let systemInfo = getSystemInfo env AtTick in
      block
        [whenever (database_enabled (cfg env))
           (bind (storeMetrics env metrics systemInfo) (\<lambda>_. ret ())),
         whenever (prometheus_enabled (cfg env))
           (bind (updatePrometheusMetrics env metrics) (\<lambda>_. ret ())),
         updateStatusFile env metrics])"

definition alert :: "env \<Rightarrow> kind \<Rightarrow> usage \<Rightarrow> (world, unit) prog" where
  "alert env alertType usageValue =
     block
       [logger LWarn (HighUsage alertType usageValue),
        bind (sendTelegramAlert env alertType usageValue) (\<lambda>_. ret ())]"

text \<open>The threshold checks, in the order of the source.\<close>

definition checkThresholds :: "env \<Rightarrow> metrics \<Rightarrow> (world, unit) prog" where
  "checkThresholds env metrics =
     block
       [whenever (js_ge (to_number (ram metrics)) (Num (monitoring_threshold (cfg env))))
          (alert env RAM (Percent (to_number (ram metrics)))),
        whenever (cpu_monitor (cfg env)
                  \<and> js_ge (to_number (cpu metrics)) (Num (cpu_threshold (cfg env))))
          (alert env CPU (Percent (to_number (cpu metrics)))),
        whenever (disk_monitor (cfg env)
                  \<and> js_ge (to_number (disk metrics)) (Num (disk_threshold (cfg env))))
          (alert env Disk (Percent (to_number (disk metrics)))),
        whenever (swap_monitor (cfg env)
                  \<and> js_ge (to_number (swap metrics)) (Num (swap_threshold (cfg env)))
                  \<and> js_gt (to_number (swap metrics)) (Num 0))
          (alert env Swap (Percent (to_number (swap metrics)))),
        whenever (load_monitor (cfg env)
                  \<and> js_ge (to_number (load metrics)) (Num (load_threshold (cfg env))))
          (let loadPerCore = num_div env (to_number (load metrics)) (Num 100);
               load1min = num_mul env loadPerCore (Num (of_nat (os_cpus_length env)))
           in alert env Load (LoadFigures load1min loadPerCore)),
        whenever (network_monitor (cfg env))
          (case network metrics of
             None \<Rightarrow> throw (Error ''undefined is not iterable'')
           | Some (rxRate, txRate) \<Rightarrow>
               whenever (js_ge rxRate (Num (network_threshold (cfg env)))
                         \<or> js_ge txRate (Num (network_threshold (cfg env))))
                 (alert env Network (NetworkFigures rxRate txRate)))]"

definition tick :: "env \<Rightarrow> (world, unit) prog" where
  "tick env =
     try_catch
       (bind (collectMetrics env) (\<lambda>metrics.
        bind (fanOut env metrics) (\<lambda>_.
        checkThresholds env metrics)))
       (\<lambda>error. logger LError (ErrorInMonitoring (message error)))"

section \<open>The SQLite interface (database.js)\<close>

text \<open>
  A table is the list of its rows in the order of insertion. A row of \<open>metrics\<close> is its
  identifier and the inserted columns; a row of \<open>alerts\<close> keeps \<open>sent_successfully\<close> as
  the integer 1 or 0. \<open>AUTOINCREMENT\<close> hands out the successor of the largest
  identifier used so far. The outcome of a statement (the \<open>err\<close> of its callback) is an
  argument of each function.
\<close>

type_synonym metrics_row = "nat \<times> metric_record"

record alerts_row =
  r_id :: nat
  r_timestamp :: string
  r_hostname :: string
  r_alert_type :: kind
  r_value :: usage
  r_message :: string
  r_sent_successfully :: int

record database =
  metrics_table :: "metrics_row list"
  metrics_seq :: nat
  alerts_table :: "alerts_row list"
  alerts_seq :: nat

definition sqlite_storeMetrics :: "error option \<Rightarrow> metric_record \<Rightarrow> (database, nat) prog" where
  "sqlite_storeMetrics err r =
     (\<lambda>d. case err of
        Some e \<Rightarrow> (Inl e, d)
      | None \<Rightarrow>
          (let lastID = metrics_seq d + 1
           in (Inr lastID,
               d\<lparr>metrics_table := metrics_table d @ [(lastID, r)], metrics_seq := lastID\<rparr>)))"

definition sqlite_storeAlert :: "error option \<Rightarrow> alert_record \<Rightarrow> (database, nat) prog" where
  "sqlite_storeAlert err r =
     (\<lambda>d. case err of
        Some e \<Rightarrow> (Inl e, d)
      | None \<Rightarrow>
          (let lastID = alerts_seq d + 1
           in (Inr lastID,
               d\<lparr>alerts_table := alerts_table d @
                    [\<lparr>r_id = lastID, r_timestamp = a_timestamp r, r_hostname = a_hostname r,
                      r_alert_type = a_alert_type r, r_value = a_value r,
                      r_message = a_message r,
                      r_sent_successfully = (if a_sent_successfully r then 1 else 0)\<rparr>],
                 alerts_seq := lastID\<rparr>)))"

text \<open>
  \<open>ORDER BY timestamp DESC\<close>: the timestamps are text and compare byte by byte. The
  query does not fix the order of rows with equal timestamps; here they keep the order
  of insertion, and no theorem depends on it.
\<close>

fun insert_desc :: "('a \<Rightarrow> string) \<Rightarrow> 'a \<Rightarrow> 'a list \<Rightarrow> 'a list" where
  "insert_desc key x [] = [x]"
| "insert_desc key x (y # ys) =
     (if key x < key y then y # insert_desc key x ys else x # y # ys)"

fun order_by_desc :: "('a \<Rightarrow> string) \<Rightarrow> 'a list \<Rightarrow> 'a list" where
  "order_by_desc key [] = []"
| "order_by_desc key (x # xs) = insert_desc key x (order_by_desc key xs)"

text \<open>The default of the parameter: \<open>limit = 100\<close>.\<close>

definition limit_or_default :: "nat option \<Rightarrow> nat" where
  "limit_or_default limit = (case limit of None \<Rightarrow> 100 | Some n \<Rightarrow> n)"

definition sqlite_getRecentMetrics ::
  "error option \<Rightarrow> nat option \<Rightarrow> (database, metrics_row list) prog" where
  "sqlite_getRecentMetrics err limit =
     (\<lambda>d. case err of
        Some e \<Rightarrow> (Inl e, d)
      | None \<Rightarrow>
          (Inr (take (limit_or_default limit)
                  (order_by_desc (\<lambda>row. m_timestamp (snd row)) (metrics_table d))), d))"

definition sqlite_getRecentAlerts ::
  "error option \<Rightarrow> nat option \<Rightarrow> (database, alerts_row list) prog" where
  "sqlite_getRecentAlerts err limit =
     (\<lambda>d. case err of
        Some e \<Rightarrow> (Inl e, d)
      | None \<Rightarrow>
          (Inr (take (limit_or_default limit)
                  (order_by_desc r_timestamp (alerts_table d))), d))"

section \<open>Observations on a trace\<close>

fun is_dispatch :: "event \<Rightarrow> bool" where
  "is_dispatch (Dispatch k u) = True"
| "is_dispatch e = False"

fun is_send :: "event \<Rightarrow> bool" where
  "is_send (BotSend m) = True"
| "is_send e = False"

text \<open>A delivery attempt or a wait.\<close>

fun is_delivery :: "event \<Rightarrow> bool" where
  "is_delivery (BotSend m) = True"
| "is_delivery (Sleep ms) = True"
| "is_delivery e = False"

fun is_format :: "event \<Rightarrow> bool" where
  "is_format (FormatAlert k u) = True"
| "is_format e = False"

fun is_alert_record :: "event \<Rightarrow> bool" where
  "is_alert_record (DbStoreAlert r) = True"
| "is_alert_record e = False"


text \<open>The kinds of the dispatches of a trace, in their order.\<close>

fun dispatch_kind :: "event \<Rightarrow> kind list" where
  "dispatch_kind (Dispatch k u) = [k]"
| "dispatch_kind e = []"

definition dispatched :: "event list \<Rightarrow> kind list" where
  "dispatched tr = concat (map dispatch_kind tr)"

text \<open>What a program adds to the trace of the state it starts from.\<close>

definition added :: "('z world_scheme, 'a) prog \<Rightarrow> 'z world_scheme \<Rightarrow> event list" where
  "added p w = drop (length (trace w)) (trace (snd (p w)))"

section \<open>The threshold evaluator, in the words of the specification\<close>

text \<open>
  A kind breaches when its monitoring is enabled and its reading is at least its
  threshold; RAM is always monitored, the network breaches on either rate; the kinds
  come in the order RAM, CPU, Disk, Swap, Load, Network.
\<close>

definition breaches_claimed :: "config \<Rightarrow> metrics \<Rightarrow> kind list" where
  "breaches_claimed c m =
     (if js_ge (to_number (ram m)) (Num (monitoring_threshold c)) then [RAM] else [])
     @ (if cpu_monitor c \<and> js_ge (to_number (cpu m)) (Num (cpu_threshold c)) then [CPU] else [])
     @ (if disk_monitor c \<and> js_ge (to_number (disk m)) (Num (disk_threshold c))
        then [Disk] else [])
     @ (if swap_monitor c \<and> js_ge (to_number (swap m)) (Num (swap_threshold c))
        then [Swap] else [])
     @ (if load_monitor c \<and> js_ge (to_number (load m)) (Num (load_threshold c))
        then [Load] else [])
     @ (if network_monitor c
           \<and> (js_ge (to_number (map_option fst (network m))) (Num (network_threshold c))
                \<or> js_ge (to_number (map_option snd (network m))) (Num (network_threshold c)))
        then [Network] else [])"

text \<open>The same, with a Swap breach asking for a reading above 0 as well.\<close>

definition breaches :: "config \<Rightarrow> metrics \<Rightarrow> kind list" where
  "breaches c m =
     (if js_ge (to_number (ram m)) (Num (monitoring_threshold c)) then [RAM] else [])
     @ (if cpu_monitor c \<and> js_ge (to_number (cpu m)) (Num (cpu_threshold c)) then [CPU] else [])
     @ (if disk_monitor c \<and> js_ge (to_number (disk m)) (Num (disk_threshold c))
        then [Disk] else [])
     @ (if swap_monitor c \<and> js_ge (to_number (swap m)) (Num (swap_threshold c))
           \<and> js_gt (to_number (swap m)) (Num 0)
        then [Swap] else [])
     @ (if load_monitor c \<and> js_ge (to_number (load m)) (Num (load_threshold c))
        then [Load] else [])
     @ (if network_monitor c
           \<and> (js_ge (to_number (map_option fst (network m))) (Num (network_threshold c))
                \<or> js_ge (to_number (map_option snd (network m))) (Num (network_threshold c)))
        then [Network] else [])"

section \<open>Proof vocabulary\<close>

text \<open>
  \<open>nothrow p\<close>: \<open>p\<close> returns from every state. \<open>only Q p\<close>: \<open>p\<close> extends the
  trace, with events of class \<open>Q\<close> only. \<open>adds P p es\<close>: \<open>p\<close> extends the trace, and
  the events of class \<open>P\<close> it adds are \<open>es\<close>.
\<close>

definition nothrow :: "('s, 'a) prog \<Rightarrow> bool" where
  "nothrow p \<longleftrightarrow> (\<forall>s. \<exists>x s'. p s = (Inr x, s'))"

definition only :: "(event \<Rightarrow> bool) \<Rightarrow> ('z world_scheme, 'a) prog \<Rightarrow> bool" where
  "only Q p \<longleftrightarrow> (\<forall>w. \<exists>evs. trace (snd (p w)) = trace w @ evs \<and> (\<forall>e\<in>set evs. Q e))"

definition adds :: "(event \<Rightarrow> bool) \<Rightarrow> ('z world_scheme, 'a) prog \<Rightarrow> event list \<Rightarrow> bool" where
  "adds P p es \<longleftrightarrow> (\<forall>w. \<exists>evs. trace (snd (p w)) = trace w @ evs \<and> filter P evs = es)"

text \<open>The events of the readers, of the sinks, and of a dispatch after its marker.\<close>

fun reader_event :: "event \<Rightarrow> bool" where
  "reader_event (Log l m) = True"
| "reader_event (Sleep ms) = True"
| "reader_event e = False"

fun sink_event :: "event \<Rightarrow> bool" where
  "sink_event (Log l m) = True"
| "sink_event (GaugeSet g v) = True"
| "sink_event (DbStoreMetrics r) = True"
| "sink_event (WriteStatus c) = True"
| "sink_event e = False"

fun notifier_event :: "event \<Rightarrow> bool" where
  "notifier_event (Log l m) = True"
| "notifier_event (FormatAlert k u) = True"
| "notifier_event (BotSend m) = True"
| "notifier_event (Sleep ms) = True"
| "notifier_event (CounterInc k) = True"
| "notifier_event (DbStoreAlert r) = True"
| "notifier_event e = False"

text \<open>The events of each sink, and of the threshold checks.\<close>

fun store_event :: "event \<Rightarrow> bool" where
  "store_event (Log l m) = True"
| "store_event (DbStoreMetrics r) = True"
| "store_event e = False"

fun registry_event :: "event \<Rightarrow> bool" where
  "registry_event (Log l m) = True"
| "registry_event (GaugeSet g v) = True"
| "registry_event e = False"

fun status_event :: "event \<Rightarrow> bool" where
  "status_event (Log l m) = True"
| "status_event (WriteStatus c) = True"
| "status_event e = False"

fun alert_event :: "event \<Rightarrow> bool" where
  "alert_event (Dispatch k u) = True"
| "alert_event e = notifier_event e"

section \<open>The events of a dispatch, in closed form\<close>

text \<open>
  The events of \<open>storeAlert\<close>, of a delivery attempt that fails, and of one whose message
  is sent, \<open>r\<close> being the value of \<open>retry\<close> when the attempt begins.
\<close>

definition storeAlertEvents :: "env \<Rightarrow> kind \<Rightarrow> usage \<Rightarrow> string \<Rightarrow> bool \<Rightarrow> event list" where
  "storeAlertEvents env k u m b =
     (if \<not> db env \<or> \<not> database_enabled (cfg env) then []
      else [DbStoreAlert
              \<lparr>a_timestamp = isoTimestamp env (AtStoreAlert k),
               a_hostname = hostname (getSystemInfo env (AtStoreAlert k)),
               a_alert_type = k, a_value = u, a_message = m, a_sent_successfully = b\<rparr>,
            (case db_storeAlert env k of
               None \<Rightarrow> Log LDebug (AlertStored k)
             | Some e \<Rightarrow> Log LError (FailedStoreAlert (message e)))])"

definition failedEvents :: "kind \<Rightarrow> string \<Rightarrow> nat \<Rightarrow> error \<Rightarrow> event list" where
  "failedEvents k m r e =
     [Log LDebug (SendingMessage k), BotSend m,
      Log LWarn (ErrorSending (Suc r) maxRetries (message e)), Sleep 2000]"

definition counterFails :: "env \<Rightarrow> kind \<Rightarrow> bool" where
  "counterFails env k \<longleftrightarrow>
     prometheus env \<and> prometheus_enabled (cfg env) \<and> counter_inc env k \<noteq> None"

definition sentEvents :: "env \<Rightarrow> kind \<Rightarrow> usage \<Rightarrow> string \<Rightarrow> nat \<Rightarrow> event list" where
  "sentEvents env k u m r =
     [Log LDebug (SendingMessage k), BotSend m, Log LInfo (AlertSent k)]
     @ (if prometheus env \<and> prometheus_enabled (cfg env) then
          CounterInc k
          # (case counter_inc env k of
               Some e \<Rightarrow> [Log LWarn (ErrorSending (Suc r) maxRetries (message e)), Sleep 2000]
             | None \<Rightarrow> storeAlertEvents env k u m True)
        else storeAlertEvents env k u m True)"

text \<open>The events of the retry loop, and whether it ends with a message sent.\<close>

definition loopEvents :: "env \<Rightarrow> kind \<Rightarrow> usage \<Rightarrow> string \<Rightarrow> event list" where
  "loopEvents env k u m =
     (case bot_sendMessage env k 0 of
        None \<Rightarrow> sentEvents env k u m 0
      | Some e0 \<Rightarrow>
          failedEvents k m 0 e0
          @ (case bot_sendMessage env k 1 of
               None \<Rightarrow> sentEvents env k u m 1
             | Some e1 \<Rightarrow>
                 failedEvents k m 1 e1
                 @ (case bot_sendMessage env k 2 of
                      None \<Rightarrow> sentEvents env k u m 2
                    | Some e2 \<Rightarrow> failedEvents k m 2 e2)))"

definition loopSucceeds :: "env \<Rightarrow> kind \<Rightarrow> bool" where
  "loopSucceeds env k \<longleftrightarrow>
     bot_sendMessage env k 0 = None \<or> bot_sendMessage env k 1 = None
     \<or> bot_sendMessage env k 2 = None"

text \<open>The events of a dispatch that has passed the rate limiter, after its marker.\<close>

definition deliverEvents :: "env \<Rightarrow> kind \<Rightarrow> usage \<Rightarrow> event list" where
  "deliverEvents env k u =
     (case formatAlert env k of
        Inl e \<Rightarrow> [FormatAlert k u, Log LError (ErrorInSendTelegramAlert (message e))]
      | Inr m \<Rightarrow>
          [FormatAlert k u, Log LInfo Separator, Log LInfo (AlertText m)]
          @ loopEvents env k u m
          @ (if loopSucceeds env k then []
             else [Log LError (FailedToSend maxRetries), Log LError BotTokenHint,
                   Log LError ChatId]
                  @ storeAlertEvents env k u m False))"

definition deliverSucceeds :: "env \<Rightarrow> kind \<Rightarrow> bool" where
  "deliverSucceeds env k \<longleftrightarrow> \<not> isl (formatAlert env k) \<and> loopSucceeds env k"


section \<open>Sample environments\<close>

text \<open>
  The arithmetic of the samples: the exact quotient and product of finite operands,
  a division by zero as JavaScript has it. The samples divide and multiply only finite
  values whose result binary64 represents exactly; \<open>NaN\<close> stands for the cases they do
  not reach.
\<close>

fun sample_div :: "jsnum \<Rightarrow> jsnum \<Rightarrow> jsnum" where
  "sample_div (Num a) (Num b) =
     (if b = 0 then (if a = 0 then NaN else if 0 < a then PosInf else NegInf)
      else Num (a / b))"
| "sample_div x y = NaN"

fun sample_mul :: "jsnum \<Rightarrow> jsnum \<Rightarrow> jsnum" where
  "sample_mul (Num a) (Num b) = Num (a * b)"
| "sample_mul x y = NaN"

definition sample_config :: config where
  "sample_config =
     \<lparr>monitoring_threshold = 80, monitoring_checkInterval = 60,
      cpu_monitor = True, cpu_threshold = 90,
      disk_monitor = True, disk_threshold = 90, disk_path = ''/'',
      swap_monitor = True, swap_threshold = 80,
      load_monitor = True, load_threshold = 100,
      network_monitor = True, network_threshold = 100, network_interface = ''eth0'',
      database_enabled = True, prometheus_enabled = True\<rparr>"

definition sample_system_info :: system_info where
  "sample_system_info =
     \<lparr>hostname = ''host'', ip = ''10.0.0.1'', os = ''Ubuntu 22.04'', kernel = ''5.15'',
      uptime = ''1h 0m'', ramUsage = Num 85, totalRam = ''8.0Gi'', cpuUsage = Num 10,
      diskUsage = Num 40, totalDisk = ''100.0G''\<rparr>"

text \<open>
  A host at 85% RAM, 10% CPU, 40% disk, no swap, a load of 0.5 on two cores and a
  quiet network, with every collaborator answering.
\<close>

definition sample_env :: env where
  "sample_env =
     \<lparr>cfg = sample_config, db = True, prometheus = True,
      num_div = sample_div, num_mul = sample_mul,
      si_mem = (\<lambda>k. Inr \<lparr>total = Num 8000, used = Num 6800,
                           swaptotal = Num 0, swapused = Num 0\<rparr>),
      si_currentLoad = Inr (Num 10),
      si_fsSize = Inr [\<lparr>mount = ''/'', use = Num 40\<rparr>],
      os_loadavg = Inr (Num 1),
      os_cpus_length = 2,
      si_networkStats = (\<lambda>n. Inr [\<lparr>rx_bytes = 1000000, tx_bytes = 1000000\<rparr>]),
      getSystemInfo = (\<lambda>s. sample_system_info),
      isoTimestamp = (\<lambda>s. ''2025-01-01 00:00:00''),
      dateNow = (\<lambda>k. 1735689600000),
      formatAlert = (\<lambda>k. Inr ''alert''),
      bot_sendMessage = (\<lambda>k n. None),
      counter_inc = (\<lambda>k. None),
      gauge_set = (\<lambda>g. None),
      db_storeMetrics = None,
      db_storeAlert = (\<lambda>k. None),
      fs_writeFileSync = None\<rparr>"

definition start :: world where
  "start = \<lparr>lastAlertTimes = (\<lambda>k. 0), trace = []\<rparr>"

text \<open>The scenario of the specification: 1,000,000 then 2,048,000 received bytes.\<close>

definition transfer_env :: env where
  "transfer_env =
     sample_env\<lparr>si_networkStats :=
       (\<lambda>n. if n = 0 then Inr [\<lparr>rx_bytes = 1000000, tx_bytes = 500000\<rparr>]
             else Inr [\<lparr>rx_bytes = 2048000, tx_bytes = 500000\<rparr>])\<rparr>"

text \<open>An interface whose receive counter restarted between the two samples.\<close>

definition counter_reset_env :: env where
  "counter_reset_env =
     sample_env\<lparr>si_networkStats :=
       (\<lambda>n. if n = 0 then Inr [\<lparr>rx_bytes = 2000, tx_bytes = 0\<rparr>]
             else Inr [\<lparr>rx_bytes = 1000, tx_bytes = 0\<rparr>])\<rparr>"

text \<open>
  A host where the memory and load reads fail, no file system is listed, the second
  network sample is rejected, and CPU monitoring is switched off.
\<close>

definition degraded_env :: env where
  "degraded_env =
     sample_env\<lparr>cfg := sample_config\<lparr>cpu_monitor := False\<rparr>,
       si_mem := (\<lambda>k. Inl (Error ''mem'')),
       si_fsSize := Inr [],
       os_loadavg := Inl (Error ''loadavg''),
       si_networkStats := (\<lambda>n. if n = 0 then Inr [\<lparr>rx_bytes = 1, tx_bytes = 1\<rparr>]
                                else Inl (Error ''net''))\<rparr>"

text \<open>Swap monitoring with a threshold of 0, on a host without swap.\<close>

definition idle_swap_env :: env where
  "idle_swap_env = sample_env\<lparr>cfg := sample_config\<lparr>swap_threshold := 0\<rparr>\<rparr>"


text \<open>A tick in which the store, the registry and the status file all fail.\<close>

definition failing_sinks_env :: env where
  "failing_sinks_env =
     sample_env\<lparr>db_storeMetrics := Some (Error ''database is locked''),
       gauge_set := (\<lambda>g. Some (Error ''registry'')),
       fs_writeFileSync := Some (Error ''no space left on device'')\<rparr>"

text \<open>The same host 599 seconds later.\<close>

definition later_env :: env where
  "later_env = sample_env\<lparr>dateNow := (\<lambda>k. 1735690199000)\<rparr>"

text \<open>The transport refuses every message; persistence is switched off, or on.\<close>

definition outage_env :: env where
  "outage_env = sample_env\<lparr>bot_sendMessage := (\<lambda>k n. Some (Error ''ETELEGRAM''))\<rparr>"

definition outage_no_db_env :: env where
  "outage_no_db_env =
     sample_env\<lparr>cfg := sample_config\<lparr>database_enabled := False\<rparr>, db := False,
       bot_sendMessage := (\<lambda>k n. Some (Error ''ETELEGRAM''))\<rparr>"

text \<open>The transport refuses the first message and accepts the second.\<close>

definition second_try_env :: env where
  "second_try_env =
     sample_env\<lparr>bot_sendMessage := (\<lambda>k n. if n = 0 then Some (Error ''ETIMEDOUT'') else None)\<rparr>"

text \<open>
  A metric record of the sample host, and a store that already holds a row stamped one
  day later (a clock that was set back, or a second writer).
\<close>

definition sample_record :: metric_record where
  "sample_record =
     \<lparr>m_timestamp = ''2025-01-01 00:00:00'', m_hostname = ''host'', m_ip_address = ''10.0.0.1'',
      m_ram_usage = Num 85, m_cpu_usage = Num 10, m_disk_usage = Num 40, m_swap_usage = Num 0,
      m_load_average = Num 50, m_network_rx = Num 0, m_network_tx = Num 0,
      m_extra_data = None\<rparr>"

definition ahead_db :: database where
  "ahead_db =
     \<lparr>metrics_table = [(1, sample_record\<lparr>m_timestamp := ''2025-01-02 00:00:00''\<rparr>)],
      metrics_seq = 1, alerts_table = [], alerts_seq = 0\<rparr>"

definition behind_db :: database where
  "behind_db =
     \<lparr>metrics_table = [(1, sample_record\<lparr>m_timestamp := ''2024-12-31 23:59:00''\<rparr>)],
      metrics_seq = 1, alerts_table = [], alerts_seq = 0\<rparr>"

text \<open>
  Two ticks of the sample host 599.5 seconds apart: the clock reads 900 ms past a whole
  second at the first and 400 ms past one at the second.
\<close>

definition jitter_first_env :: env where
  "jitter_first_env = sample_env\<lparr>dateNow := (\<lambda>k. 1735689600900)\<rparr>"

definition jitter_second_env :: env where
  "jitter_second_env = sample_env\<lparr>dateNow := (\<lambda>k. 1735690200400)\<rparr>"


section \<open>Termination of the retry loop\<close>

lemmas prog_defs = ret_def throw_def bind_def try_catch_def whenever_def await_def first_def
  emit_def logger_def call_def sleep_def modify_def

lemma sendAttempt_progress:
  assumes "sendAttempt env k u m t f = (r, f')"
  shows "r = Inr () \<and> ((success f' \<and> retry f' = retry f) \<or> retry f' = Suc (retry f))"
  using assms
  by (auto simp: sendAttempt_def sendAttemptTry_def sendAttemptCatch_def storeAlert_def
      prog_defs Let_def split: option.splits if_splits sum.splits prod.splits)

termination sendLoop
proof (relation "measure (\<lambda>(env, k, u, m, t, f). 2 * (maxRetries - retry f) + (if success f then 0 else 1))")
  show "wf (measure (\<lambda>(env, k, u, m, t, f). 2 * (maxRetries - retry f) + (if success f then 0 else 1)))"
    by simp
next
  fix env alertType usageValue msg currentTime f x y xa
  assume c: "retry (f::frame) < maxRetries \<and> \<not> success f"
    and a: "(x, y) = sendAttempt env alertType usageValue msg currentTime f"
  from sendAttempt_progress[OF a[symmetric]] c
  show "((env, alertType, usageValue, msg, currentTime, y), env, alertType, usageValue, msg, currentTime, f)
        \<in> measure (\<lambda>(env, k, u, m, t, f). 2 * (maxRetries - retry f) + (if success f then 0 else 1))"
    by (auto simp: maxRetries_def)
qed

declare sendLoop.simps [simp del]

subsection \<open>Programs that return\<close>

lemma nothrow_ret: "nothrow (ret x)"
  by (simp add: nothrow_def ret_def)

lemma nothrow_emit: "nothrow (emit e)"
  by (simp add: nothrow_def emit_def)

lemma nothrow_logger: "nothrow (logger l m)"
  by (simp add: logger_def nothrow_emit)

lemma nothrow_sleep: "nothrow (sleep n)"
  by (simp add: sleep_def nothrow_emit)

lemma nothrow_modify: "nothrow (modify g)"
  by (simp add: nothrow_def modify_def)

lemma nothrow_bind: "nothrow m \<Longrightarrow> (\<And>x. nothrow (f x)) \<Longrightarrow> nothrow (bind m f)"
  unfolding nothrow_def bind_def
proof
  fix s
  assume m: "\<forall>s. \<exists>x s'. m s = (Inr x, s')" and f: "\<And>x. \<forall>s. \<exists>y s'. f x s = (Inr y, s')"
  from m obtain x s1 where 1: "m s = (Inr x, s1)" by blast
  from f obtain y s2 where 2: "f x s1 = (Inr y, s2)" by blast
  show "\<exists>x s'. (case m s of (Inl e, s') \<Rightarrow> (Inl e, s') | (Inr x, s') \<Rightarrow> f x s') = (Inr x, s')"
    by (simp add: 1 2)
qed

lemma nothrow_try_catch: "(\<And>e. nothrow (h e)) \<Longrightarrow> nothrow (try_catch m h)"
  unfolding nothrow_def try_catch_def
proof
  fix s
  assume h: "\<And>e. \<forall>s. \<exists>x s'. h e s = (Inr x, s')"
  obtain r s1 where 1: "m s = (r, s1)" by (cases "m s")
  show "\<exists>x s'. (case m s of (Inl e, s') \<Rightarrow> h e s' | (Inr x, s') \<Rightarrow> (Inr x, s')) = (Inr x, s')"
  proof (cases r)
    case (Inl e)
    from h obtain y s2 where "h e s1 = (Inr y, s2)" by blast
    with 1 Inl show ?thesis by simp
  next
    case (Inr x)
    with 1 show ?thesis by simp
  qed
qed

lemma nothrow_whenever: "nothrow p \<Longrightarrow> nothrow (whenever c p)"
  by (simp add: whenever_def nothrow_ret)

lemma nothrow_block: "(\<And>p. p \<in> set ps \<Longrightarrow> nothrow p) \<Longrightarrow> nothrow (block ps)"
  by (induction ps) (auto intro: nothrow_ret nothrow_bind)

lemma nothrow_state: "(\<And>s. nothrow (q s)) \<Longrightarrow> nothrow (\<lambda>s. q s s)"
  by (simp add: nothrow_def)

lemma nothrow_with_locals: "nothrow p \<Longrightarrow> nothrow (with_locals p)"
  unfolding nothrow_def with_locals_def
proof
  fix w :: world
  assume p: "\<forall>s. \<exists>x s'. p s = (Inr x, s')"
  let ?f = "\<lparr>lastAlertTimes = lastAlertTimes w, trace = trace w, retry = 0, success = False\<rparr>"
  from p obtain x f' where "p ?f = (Inr x, f')" by blast
  then show "\<exists>x s'. (case p ?f of (r, f) \<Rightarrow> (r, \<lparr>lastAlertTimes = lastAlertTimes f, trace = trace f\<rparr>)) = (Inr x, s')"
    by simp
qed

lemmas nothrow_intros = nothrow_ret nothrow_emit nothrow_logger nothrow_sleep nothrow_modify
  nothrow_bind nothrow_try_catch nothrow_whenever nothrow_block nothrow_with_locals

subsection \<open>Programs that add only events of one class\<close>

lemma only_ret: "only Q (ret x)"
  by (simp add: only_def ret_def)

lemma only_throw: "only Q (throw e)"
  by (simp add: only_def throw_def)

lemma only_await: "only Q (await r)"
  by (simp add: only_def await_def)

lemma only_first: "only Q (first xs)"
  by (simp add: first_def only_ret only_throw split: list.splits)

lemma only_emit: "Q e \<Longrightarrow> only Q (emit e)"
  by (simp add: only_def emit_def)

lemma only_modify: "(\<And>s. trace (g s) = trace s) \<Longrightarrow> only Q (modify g)"
  by (simp add: only_def modify_def)

lemma only_bind: "only Q m \<Longrightarrow> (\<And>x. only Q (f x)) \<Longrightarrow> only Q (bind m f)"
  unfolding only_def bind_def
proof
  fix w
  assume m: "\<forall>w. \<exists>evs. trace (snd (m w)) = trace w @ evs \<and> (\<forall>e\<in>set evs. Q e)"
    and f: "\<And>x. \<forall>w. \<exists>evs. trace (snd (f x w)) = trace w @ evs \<and> (\<forall>e\<in>set evs. Q e)"
  obtain r w1 where 1: "m w = (r, w1)" by (cases "m w")
  from m obtain a where a0: "trace (snd (m w)) = trace w @ a" and a1: "\<forall>e\<in>set a. Q e" by blast
  from a0 1 have a2: "trace w1 = trace w @ a" by simp
  note a = a2 a1
  show "\<exists>evs. trace (snd (case m w of (Inl e, s') \<Rightarrow> (Inl e, s') | (Inr x, s') \<Rightarrow> f x s')) = trace w @ evs
          \<and> (\<forall>e\<in>set evs. Q e)"
  proof (cases r)
    case (Inl e)
    with 1 a show ?thesis by simp
  next
    case (Inr x)
    from f obtain b where b: "trace (snd (f x w1)) = trace w1 @ b" "\<forall>e\<in>set b. Q e" by blast
    with 1 a Inr show ?thesis by (intro exI[of _ "a @ b"]) auto
  qed
qed

lemma only_try_catch: "only Q m \<Longrightarrow> (\<And>e. only Q (h e)) \<Longrightarrow> only Q (try_catch m h)"
  unfolding only_def try_catch_def
proof
  fix w
  assume m: "\<forall>w. \<exists>evs. trace (snd (m w)) = trace w @ evs \<and> (\<forall>e\<in>set evs. Q e)"
    and h: "\<And>x. \<forall>w. \<exists>evs. trace (snd (h x w)) = trace w @ evs \<and> (\<forall>e\<in>set evs. Q e)"
  obtain r w1 where 1: "m w = (r, w1)" by (cases "m w")
  from m obtain a where a0: "trace (snd (m w)) = trace w @ a" and a1: "\<forall>e\<in>set a. Q e" by blast
  from a0 1 have a2: "trace w1 = trace w @ a" by simp
  note a = a2 a1
  show "\<exists>evs. trace (snd (case m w of (Inl e, s') \<Rightarrow> h e s' | (Inr x, s') \<Rightarrow> (Inr x, s'))) = trace w @ evs
          \<and> (\<forall>e\<in>set evs. Q e)"
  proof (cases r)
    case (Inr x)
    with 1 a show ?thesis by simp
  next
    case (Inl e)
    from h obtain b where b: "trace (snd (h e w1)) = trace w1 @ b" "\<forall>e\<in>set b. Q e" by blast
    with 1 a Inl show ?thesis by (intro exI[of _ "a @ b"]) auto
  qed
qed

lemma only_whenever: "only Q p \<Longrightarrow> only Q (whenever c p)"
  by (simp add: whenever_def only_ret)

lemma only_block: "(\<And>p. p \<in> set ps \<Longrightarrow> only Q p) \<Longrightarrow> only Q (block ps)"
  by (induction ps) (auto intro: only_ret only_bind)

lemma only_state: "(\<And>s. only Q (q s)) \<Longrightarrow> only Q (\<lambda>s. q s s)"
  by (simp add: only_def)

lemma only_call: "Q e \<Longrightarrow> only Q (call e failure)"
  by (auto simp: call_def intro!: only_bind only_emit only_ret only_throw split: option.splits)

lemma only_logger: "Q (Log l m) \<Longrightarrow> only Q (logger l m)"
  by (simp add: logger_def only_emit)

lemma only_sleep: "Q (Sleep n) \<Longrightarrow> only Q (sleep n)"
  by (simp add: sleep_def only_emit)

lemma only_mono: "only Q p \<Longrightarrow> (\<And>e. Q e \<Longrightarrow> Q' e) \<Longrightarrow> only Q' p"
  unfolding only_def by blast

lemma only_with_locals: "only Q p \<Longrightarrow> only Q (with_locals p)"
  unfolding only_def with_locals_def
proof
  fix w :: world
  assume p: "\<forall>w. \<exists>evs. trace (snd (p w)) = trace w @ evs \<and> (\<forall>e\<in>set evs. Q e)"
  let ?f = "\<lparr>lastAlertTimes = lastAlertTimes w, trace = trace w, retry = 0, success = False\<rparr>"
  from p obtain evs where "trace (snd (p ?f)) = trace ?f @ evs" "\<forall>e\<in>set evs. Q e" by blast
  then show "\<exists>evs. trace (snd (case p ?f of (r, f) \<Rightarrow> (r, \<lparr>lastAlertTimes = lastAlertTimes f, trace = trace f\<rparr>)))
               = trace w @ evs \<and> (\<forall>e\<in>set evs. Q e)"
    by (cases "p ?f") auto
qed

lemmas only_intros = only_ret only_throw only_await only_first only_emit only_modify only_bind
  only_try_catch only_whenever only_block only_call only_logger only_sleep only_with_locals


subsection \<open>Programs that add given events\<close>

lemma adds_only: "only Q p \<Longrightarrow> (\<And>e. Q e \<Longrightarrow> \<not> P e) \<Longrightarrow> adds P p []"
  unfolding only_def adds_def
proof
  fix w
  assume o: "\<forall>w. \<exists>evs. trace (snd (p w)) = trace w @ evs \<and> (\<forall>e\<in>set evs. Q e)"
    and q: "\<And>e. Q e \<Longrightarrow> \<not> P e"
  from o obtain evs where e: "trace (snd (p w)) = trace w @ evs" "\<forall>e\<in>set evs. Q e" by blast
  with q have "filter P evs = []" by (auto simp: filter_empty_conv)
  with e show "\<exists>evs. trace (snd (p w)) = trace w @ evs \<and> filter P evs = []" by blast
qed

lemma adds_ret: "adds P (ret x) []"
  by (simp add: adds_def ret_def)

lemma adds_emit: "P e \<Longrightarrow> adds P (emit e) [e]"
  by (simp add: adds_def emit_def)

lemma adds_bind:
  assumes "nothrow m" and "adds P m a" and "\<And>x. adds P (f x) b"
  shows "adds P (bind m f) (a @ b)"
  unfolding adds_def
proof
  fix w
  from assms(1) obtain x w1 where 1: "m w = (Inr x, w1)" unfolding nothrow_def by blast
  from assms(2) obtain e1 where "trace (snd (m w)) = trace w @ e1" and a: "filter P e1 = a"
    unfolding adds_def by blast
  with 1 have t1: "trace w1 = trace w @ e1" by simp
  from assms(3) obtain e2 where t2: "trace (snd (f x w1)) = trace w1 @ e2" and b: "filter P e2 = b"
    unfolding adds_def by blast
  show "\<exists>evs. trace (snd (bind m f w)) = trace w @ evs \<and> filter P evs = a @ b"
    using 1 t1 t2 a b by (intro exI[of _ "e1 @ e2"]) (simp add: bind_def)
qed

lemma adds_bind_quiet:
  assumes "adds P m a" and "\<And>x. adds P (f x) []"
  shows "adds P (bind m f) a"
  unfolding adds_def
proof
  fix w
  obtain r w1 where 1: "m w = (r, w1)" by (cases "m w")
  from assms(1) obtain e1 where "trace (snd (m w)) = trace w @ e1" and a: "filter P e1 = a"
    unfolding adds_def by blast
  with 1 have t1: "trace w1 = trace w @ e1" by simp
  show "\<exists>evs. trace (snd (bind m f w)) = trace w @ evs \<and> filter P evs = a"
  proof (cases r)
    case (Inl e)
    with 1 t1 a show ?thesis by (simp add: bind_def)
  next
    case (Inr x)
    from assms(2) obtain e2 where t2: "trace (snd (f x w1)) = trace w1 @ e2" and b: "filter P e2 = []"
      unfolding adds_def by blast
    show ?thesis using 1 Inr t1 t2 a b by (intro exI[of _ "e1 @ e2"]) (simp add: bind_def)
  qed
qed

lemma adds_try_catch:
  assumes "nothrow m" and "adds P m a"
  shows "adds P (try_catch m h) a"
  unfolding adds_def
proof
  fix w
  from assms(1) obtain x w1 where 1: "m w = (Inr x, w1)" unfolding nothrow_def by blast
  from assms(2) obtain e1 where "trace (snd (m w)) = trace w @ e1" and a: "filter P e1 = a"
    unfolding adds_def by blast
  then show "\<exists>evs. trace (snd (try_catch m h w)) = trace w @ evs \<and> filter P evs = a"
    using 1 by (simp add: try_catch_def)
qed

lemma adds_try_catch_quiet:
  assumes "adds P m a" and "\<And>e. adds P (h e) []"
  shows "adds P (try_catch m h) a"
  unfolding adds_def
proof
  fix w
  obtain r w1 where 1: "m w = (r, w1)" by (cases "m w")
  from assms(1) obtain e1 where "trace (snd (m w)) = trace w @ e1" and a: "filter P e1 = a"
    unfolding adds_def by blast
  with 1 have t1: "trace w1 = trace w @ e1" by simp
  show "\<exists>evs. trace (snd (try_catch m h w)) = trace w @ evs \<and> filter P evs = a"
  proof (cases r)
    case (Inr x)
    with 1 t1 a show ?thesis by (simp add: try_catch_def)
  next
    case (Inl e)
    from assms(2) obtain e2 where t2: "trace (snd (h e w1)) = trace w1 @ e2" and b: "filter P e2 = []"
      unfolding adds_def by blast
    show ?thesis using 1 Inl t1 t2 a b by (intro exI[of _ "e1 @ e2"]) (simp add: try_catch_def)
  qed
qed

lemma adds_whenever: "adds P p es \<Longrightarrow> adds P (whenever c p) (if c then es else [])"
  by (simp add: whenever_def adds_ret)

lemma adds_block_Nil: "adds P (block []) []"
  by (simp add: adds_ret)

lemma adds_block_Cons:
  "nothrow p \<Longrightarrow> adds P p a \<Longrightarrow> adds P (block ps) b \<Longrightarrow> adds P (block (p # ps)) (a @ b)"
  by (simp add: adds_bind)

lemma grows_added:
  assumes "only Q p"
  shows "trace (snd (p w)) = trace w @ added p w"
proof -
  from assms obtain evs where "trace (snd (p w)) = trace w @ evs" unfolding only_def by blast
  then show ?thesis by (simp add: added_def)
qed

lemma adds_added:
  assumes "adds P p es"
  shows "filter P (added p w) = es"
proof -
  from assms obtain evs where "trace (snd (p w)) = trace w @ evs" "filter P evs = es"
    unfolding adds_def by blast
  then show ?thesis by (simp add: added_def)
qed

lemma only_added:
  assumes "only Q p" and "e \<in> set (added p w)"
  shows "Q e"
proof -
  from assms(1) obtain evs where "trace (snd (p w)) = trace w @ evs" "\<forall>e\<in>set evs. Q e"
    unfolding only_def by blast
  with assms(2) show ?thesis by (simp add: added_def)
qed

subsection \<open>The readers\<close>

lemma only_checkRamUsage: "only reader_event (checkRamUsage env)"
  unfolding checkRamUsage_def by (auto intro!: only_intros)

lemma only_checkCpuUsage: "only reader_event (checkCpuUsage env)"
  unfolding checkCpuUsage_def by (auto intro!: only_intros)

lemma only_checkDiskUsage: "only reader_event (checkDiskUsage env)"
  unfolding checkDiskUsage_def by (auto intro!: only_intros split: option.splits)

lemma only_checkSwapUsage: "only reader_event (checkSwapUsage env)"
  unfolding checkSwapUsage_def by (auto intro!: only_intros)

lemma only_checkLoadAverage: "only reader_event (checkLoadAverage env)"
  unfolding checkLoadAverage_def by (auto simp: Let_def intro!: only_intros)

lemma only_checkNetworkUsage: "only reader_event (checkNetworkUsage env)"
  unfolding checkNetworkUsage_def by (auto simp: Let_def intro!: only_intros)

lemma nothrow_checkRamUsage: "nothrow (checkRamUsage env)"
  unfolding checkRamUsage_def by (intro nothrow_intros)

lemma nothrow_checkCpuUsage: "nothrow (checkCpuUsage env)"
  unfolding checkCpuUsage_def by (auto intro!: nothrow_intros)

lemma nothrow_checkDiskUsage: "nothrow (checkDiskUsage env)"
  unfolding checkDiskUsage_def by (auto intro!: nothrow_intros)

lemma nothrow_checkSwapUsage: "nothrow (checkSwapUsage env)"
  unfolding checkSwapUsage_def by (auto intro!: nothrow_intros)

lemma nothrow_checkLoadAverage: "nothrow (checkLoadAverage env)"
  unfolding checkLoadAverage_def by (auto intro!: nothrow_intros)

lemma nothrow_checkNetworkUsage: "nothrow (checkNetworkUsage env)"
  unfolding checkNetworkUsage_def by (auto intro!: nothrow_intros)

lemmas nothrow_readers = nothrow_checkRamUsage nothrow_checkCpuUsage nothrow_checkDiskUsage
  nothrow_checkSwapUsage nothrow_checkLoadAverage nothrow_checkNetworkUsage

lemmas only_readers = only_checkRamUsage only_checkCpuUsage only_checkDiskUsage
  only_checkSwapUsage only_checkLoadAverage only_checkNetworkUsage

lemma nothrow_collectMetrics: "nothrow (collectMetrics env)"
  unfolding collectMetrics_def by (intro nothrow_bind nothrow_readers nothrow_ret)

lemma only_collectMetrics: "only reader_event (collectMetrics env)"
  unfolding collectMetrics_def by (intro only_bind only_readers only_ret)


subsection \<open>What the readers return\<close>

lemma checkCpuUsage_disabled: "\<not> cpu_monitor (cfg env) \<Longrightarrow> checkCpuUsage env w = (Inr (Num 0), w)"
  by (simp add: checkCpuUsage_def ret_def)

lemma checkDiskUsage_disabled: "\<not> disk_monitor (cfg env) \<Longrightarrow> checkDiskUsage env w = (Inr (Num 0), w)"
  by (simp add: checkDiskUsage_def ret_def)

lemma checkSwapUsage_disabled: "\<not> swap_monitor (cfg env) \<Longrightarrow> checkSwapUsage env w = (Inr (Num 0), w)"
  by (simp add: checkSwapUsage_def ret_def)

lemma checkLoadAverage_disabled: "\<not> load_monitor (cfg env) \<Longrightarrow> checkLoadAverage env w = (Inr (Num 0), w)"
  by (simp add: checkLoadAverage_def ret_def)

lemma checkNetworkUsage_disabled:
  "\<not> network_monitor (cfg env) \<Longrightarrow> checkNetworkUsage env w = (Inr (Num 0, Num 0), w)"
  by (simp add: checkNetworkUsage_def ret_def)

lemma checkRamUsage_failed: "isl (si_mem env RAM) \<Longrightarrow> fst (checkRamUsage env w) = Inr (Num 0)"
  by (auto simp: checkRamUsage_def prog_defs isl_def)

lemma checkCpuUsage_failed: "isl (si_currentLoad env) \<Longrightarrow> fst (checkCpuUsage env w) = Inr (Num 0)"
  by (auto simp: checkCpuUsage_def prog_defs isl_def)

lemma checkDiskUsage_failed:
  "isl (si_fsSize env) \<or> si_fsSize env = Inr [] \<Longrightarrow> fst (checkDiskUsage env w) = Inr (Num 0)"
  by (auto simp: checkDiskUsage_def prog_defs isl_def)

lemma checkSwapUsage_failed: "isl (si_mem env Swap) \<Longrightarrow> fst (checkSwapUsage env w) = Inr (Num 0)"
  by (auto simp: checkSwapUsage_def prog_defs isl_def)

lemma checkSwapUsage_no_swap:
  "si_mem env Swap = Inr memInfo \<Longrightarrow> swaptotal memInfo = Num 0
   \<Longrightarrow> checkSwapUsage env w = (Inr (Num 0), w)"
  by (auto simp: checkSwapUsage_def prog_defs)

lemma checkLoadAverage_failed: "isl (os_loadavg env) \<Longrightarrow> fst (checkLoadAverage env w) = Inr (Num 0)"
  by (auto simp: checkLoadAverage_def prog_defs isl_def)

lemma checkNetworkUsage_failed:
  "isl (si_networkStats env 0) \<or> isl (si_networkStats env 1)
   \<or> si_networkStats env 0 = Inr [] \<or> si_networkStats env 1 = Inr []
   \<Longrightarrow> fst (checkNetworkUsage env w) = Inr (Num 0, Num 0)"
  by (auto simp: checkNetworkUsage_def prog_defs isl_def split: sum.splits list.splits)

lemma checkNetworkUsage_rates:
  assumes "network_monitor (cfg env)"
    and "si_networkStats env 0 = Inr (s1 # rest1)"
    and "si_networkStats env 1 = Inr (s2 # rest2)"
  shows "fst (checkNetworkUsage env w)
         = Inr (rate (rx_bytes s2) (rx_bytes s1), rate (tx_bytes s2) (tx_bytes s1))"
  using assms by (simp add: checkNetworkUsage_def prog_defs)

lemma rate_nonneg: "js_ge (rate b2 b1) (Num 0) \<longleftrightarrow> b1 \<le> b2"
  by (simp add: rate_def zero_le_mult_iff)

lemma collectMetrics_keys:
  fixes w :: world
  shows "\<exists>m w'. collectMetrics env w = (Inr m, w') \<and> ram m \<noteq> None \<and> cpu m \<noteq> None
     \<and> disk m \<noteq> None \<and> swap m \<noteq> None \<and> load m \<noteq> None \<and> network m \<noteq> None"
proof -
  obtain v1 w1 where 1: "checkRamUsage env w = (Inr v1, w1)"
    using nothrow_checkRamUsage unfolding nothrow_def by blast
  obtain v2 w2 where 2: "checkCpuUsage env w1 = (Inr v2, w2)"
    using nothrow_checkCpuUsage unfolding nothrow_def by blast
  obtain v3 w3 where 3: "checkDiskUsage env w2 = (Inr v3, w3)"
    using nothrow_checkDiskUsage unfolding nothrow_def by blast
  obtain v4 w4 where 4: "checkSwapUsage env w3 = (Inr v4, w4)"
    using nothrow_checkSwapUsage unfolding nothrow_def by blast
  obtain v5 w5 where 5: "checkLoadAverage env w4 = (Inr v5, w5)"
    using nothrow_checkLoadAverage unfolding nothrow_def by blast
  obtain v6 w6 where 6: "checkNetworkUsage env w5 = (Inr v6, w6)"
    using nothrow_checkNetworkUsage unfolding nothrow_def by blast
  show ?thesis
    by (simp add: collectMetrics_def bind_def ret_def 1 2 3 4 5 6)
qed

text \<open>
  C7. The network reader computes each rate as the difference of the second and the first
  byte counter, times 8, divided by 1024 and again by 1024.
\<close>

theorem network_rate_formula:
  assumes "network_monitor (cfg env)"
    and "si_networkStats env 0 = Inr (s1 # rest1)"
    and "si_networkStats env 1 = Inr (s2 # rest2)"
  shows "fst (checkNetworkUsage env w)
         = Inr (Num (of_int ((rx_bytes s2 - rx_bytes s1) * 8) / 1024 / 1024),
                Num (of_int ((tx_bytes s2 - tx_bytes s1) * 8) / 1024 / 1024))"
  using checkNetworkUsage_rates[OF assms] by (simp add: rate_def)

theorem network_rate_formula_witness:
  "network_monitor (cfg transfer_env)
   \<and> si_networkStats transfer_env 0 = Inr [\<lparr>rx_bytes = 1000000, tx_bytes = 500000\<rparr>]
   \<and> si_networkStats transfer_env 1 = Inr [\<lparr>rx_bytes = 2048000, tx_bytes = 500000\<rparr>]
   \<and> fst (checkNetworkUsage transfer_env start) = Inr (Num (8384000 / 1048576), Num 0)
   \<and> (8384000 / 1048576 :: rat) \<noteq> 8384 / 1000
   \<and> \<bar>8384000 / 1048576 - 799 / 100 :: rat\<bar> < 1 / 100"
proof -
  have h1: "network_monitor (cfg transfer_env)"
    by (simp add: transfer_env_def sample_env_def sample_config_def)
  have h2: "si_networkStats transfer_env 0 = Inr [\<lparr>rx_bytes = 1000000, tx_bytes = 500000\<rparr>]"
    by (simp add: transfer_env_def)
  have h3: "si_networkStats transfer_env 1 = Inr [\<lparr>rx_bytes = 2048000, tx_bytes = 500000\<rparr>]"
    by (simp add: transfer_env_def)
  show ?thesis
    using h1 h2 h3 network_rate_formula[OF h1 h2 h3, of start] by simp
qed

lemma floor_half: "\<lfloor>(of_int k :: rat) + 1 / 2\<rfloor> = k"
  by (rule floor_unique) simp_all

lemma Math_round_numeral: "Math_round (Num (numeral n)) = Num (numeral n)"
  using floor_half[of "numeral n"] by simp

lemma Math_round_zero: "Math_round (Num 0) = Num 0"
  using floor_half[of 0] by simp

text \<open>
  C5, as stated, fails: a receive counter that restarts between the two samples gives a
  negative Rx reading in the snapshot.
\<close>

theorem snapshot_nonnegative_counterexample:
  "fst (collectMetrics counter_reset_env start)
     = Inr \<lparr>ram = Some (Num 85), cpu = Some (Num 10), disk = Some (Num 40),
            swap = Some (Num 0), load = Some (Num 50),
            network = Some (Num (- (125 / 16384)), Num 0)\<rparr>
   \<and> \<not> js_ge (Num (- (125 / 16384))) (Num 0)"
  by (simp add: collectMetrics_def checkRamUsage_def checkCpuUsage_def checkDiskUsage_def
      checkSwapUsage_def checkLoadAverage_def checkNetworkUsage_def prog_defs rate_def
      counter_reset_env_def sample_env_def sample_config_def Math_round_numeral
      Math_round_zero del: Math_round.simps)



text \<open>
  C5, amended. Every reader returns, whatever its source does: 0 (the pair (0, 0) for the
  network) when its resource is disabled, with no effect, and 0 when the read fails; so
  no key of the snapshot is ever missing. A reading that the source delivers is not
  clamped: a network rate is at least 0 exactly when its byte counter did not decrease
  between the two samples.
\<close>

theorem readers_total:
  fixes w :: world
  shows
    "(\<exists>v w'. checkRamUsage env w = (Inr v, w'))
     \<and> (\<exists>v w'. checkCpuUsage env w = (Inr v, w'))
     \<and> (\<exists>v w'. checkDiskUsage env w = (Inr v, w'))
     \<and> (\<exists>v w'. checkSwapUsage env w = (Inr v, w'))
     \<and> (\<exists>v w'. checkLoadAverage env w = (Inr v, w'))
     \<and> (\<exists>v w'. checkNetworkUsage env w = (Inr v, w'))
     \<and> (\<not> cpu_monitor (cfg env) \<longrightarrow> checkCpuUsage env w = (Inr (Num 0), w))
     \<and> (\<not> disk_monitor (cfg env) \<longrightarrow> checkDiskUsage env w = (Inr (Num 0), w))
     \<and> (\<not> swap_monitor (cfg env) \<longrightarrow> checkSwapUsage env w = (Inr (Num 0), w))
     \<and> (\<not> load_monitor (cfg env) \<longrightarrow> checkLoadAverage env w = (Inr (Num 0), w))
     \<and> (\<not> network_monitor (cfg env) \<longrightarrow> checkNetworkUsage env w = (Inr (Num 0, Num 0), w))
     \<and> (isl (si_mem env RAM) \<longrightarrow> fst (checkRamUsage env w) = Inr (Num 0))
     \<and> (isl (si_currentLoad env) \<longrightarrow> fst (checkCpuUsage env w) = Inr (Num 0))
     \<and> (isl (si_fsSize env) \<or> si_fsSize env = Inr []
          \<longrightarrow> fst (checkDiskUsage env w) = Inr (Num 0))
     \<and> (isl (si_mem env Swap) \<longrightarrow> fst (checkSwapUsage env w) = Inr (Num 0))
     \<and> (isl (os_loadavg env) \<longrightarrow> fst (checkLoadAverage env w) = Inr (Num 0))
     \<and> (isl (si_networkStats env 0) \<or> isl (si_networkStats env 1)
          \<or> si_networkStats env 0 = Inr [] \<or> si_networkStats env 1 = Inr []
          \<longrightarrow> fst (checkNetworkUsage env w) = Inr (Num 0, Num 0))
     \<and> (\<exists>m w'. collectMetrics env w = (Inr m, w') \<and> ram m \<noteq> None \<and> cpu m \<noteq> None
           \<and> disk m \<noteq> None \<and> swap m \<noteq> None \<and> load m \<noteq> None \<and> network m \<noteq> None)
     \<and> (network_monitor (cfg env) \<and> si_networkStats env 0 = Inr (s1 # rest1)
           \<and> si_networkStats env 1 = Inr (s2 # rest2)
           \<longrightarrow> (\<exists>rx tx. fst (checkNetworkUsage env w) = Inr (rx, tx)
                  \<and> (js_ge rx (Num 0) \<longleftrightarrow> rx_bytes s1 \<le> rx_bytes s2)
                  \<and> (js_ge tx (Num 0) \<longleftrightarrow> tx_bytes s1 \<le> tx_bytes s2)))"
proof -
  have total: "(\<exists>v w'. checkRamUsage env w = (Inr v, w'))"
    "(\<exists>v w'. checkCpuUsage env w = (Inr v, w'))"
    "(\<exists>v w'. checkDiskUsage env w = (Inr v, w'))"
    "(\<exists>v w'. checkSwapUsage env w = (Inr v, w'))"
    "(\<exists>v w'. checkLoadAverage env w = (Inr v, w'))"
    "(\<exists>v w'. checkNetworkUsage env w = (Inr v, w'))"
    using nothrow_readers[of env] unfolding nothrow_def by blast+
  have rates: "network_monitor (cfg env) \<and> si_networkStats env 0 = Inr (s1 # rest1)
           \<and> si_networkStats env 1 = Inr (s2 # rest2)
           \<longrightarrow> (\<exists>rx tx. fst (checkNetworkUsage env w) = Inr (rx, tx)
                  \<and> (js_ge rx (Num 0) \<longleftrightarrow> rx_bytes s1 \<le> rx_bytes s2)
                  \<and> (js_ge tx (Num 0) \<longleftrightarrow> tx_bytes s1 \<le> tx_bytes s2))"
    by (simp add: checkNetworkUsage_rates rate_nonneg)
  show ?thesis
    using total rates collectMetrics_keys[of env w]
      checkCpuUsage_disabled[of env w] checkDiskUsage_disabled[of env w]
      checkSwapUsage_disabled[of env w] checkLoadAverage_disabled[of env w]
      checkNetworkUsage_disabled[of env w]
      checkRamUsage_failed[of env w] checkCpuUsage_failed[of env w]
      checkDiskUsage_failed[of env w] checkSwapUsage_failed[of env w]
      checkLoadAverage_failed[of env w] checkNetworkUsage_failed[of env w]
    by blast
qed


theorem readers_total_witness:
  "\<not> cpu_monitor (cfg degraded_env) \<and> checkCpuUsage degraded_env start = (Inr (Num 0), start)
   \<and> isl (si_mem degraded_env RAM) \<and> fst (checkRamUsage degraded_env start) = Inr (Num 0)
   \<and> si_fsSize degraded_env = Inr [] \<and> fst (checkDiskUsage degraded_env start) = Inr (Num 0)
   \<and> isl (si_mem degraded_env Swap) \<and> fst (checkSwapUsage degraded_env start) = Inr (Num 0)
   \<and> isl (os_loadavg degraded_env) \<and> fst (checkLoadAverage degraded_env start) = Inr (Num 0)
   \<and> isl (si_networkStats degraded_env 1)
   \<and> fst (checkNetworkUsage degraded_env start) = Inr (Num 0, Num 0)
   \<and> network_monitor (cfg counter_reset_env)
   \<and> si_networkStats counter_reset_env 0 = Inr [\<lparr>rx_bytes = 2000, tx_bytes = 0\<rparr>]
   \<and> si_networkStats counter_reset_env 1 = Inr [\<lparr>rx_bytes = 1000, tx_bytes = 0\<rparr>]
   \<and> \<not> js_ge (fst (projr (fst (checkNetworkUsage counter_reset_env start)))) (Num 0)
   \<and> js_ge (snd (projr (fst (checkNetworkUsage counter_reset_env start)))) (Num 0)"
proof -
  have d: "\<not> cpu_monitor (cfg degraded_env)" "isl (si_mem degraded_env RAM)"
    "si_fsSize degraded_env = Inr []" "isl (si_mem degraded_env Swap)"
    "isl (os_loadavg degraded_env)" "isl (si_networkStats degraded_env 1)"
    by (simp_all add: degraded_env_def sample_env_def sample_config_def)
  have c: "network_monitor (cfg counter_reset_env)"
    "si_networkStats counter_reset_env 0 = Inr [\<lparr>rx_bytes = 2000, tx_bytes = 0\<rparr>]"
    "si_networkStats counter_reset_env 1 = Inr [\<lparr>rx_bytes = 1000, tx_bytes = 0\<rparr>]"
    by (simp_all add: counter_reset_env_def sample_env_def sample_config_def)
  note T = readers_total[where env = degraded_env and w = start
        and ?s1.0 = "\<lparr>rx_bytes = 2000, tx_bytes = 0\<rparr>" and ?rest1.0 = "[]"
        and ?s2.0 = "\<lparr>rx_bytes = 1000, tx_bytes = 0\<rparr>" and ?rest2.0 = "[]"]
  from T have "\<not> cpu_monitor (cfg degraded_env) \<longrightarrow> checkCpuUsage degraded_env start = (Inr (Num 0), start)"
    by (elim conjE)
  with d(1) have 1: "checkCpuUsage degraded_env start = (Inr (Num 0), start)" by (rule rev_mp)
  from T have "isl (si_mem degraded_env RAM) \<longrightarrow> fst (checkRamUsage degraded_env start) = Inr (Num 0)"
    by (elim conjE)
  with d(2) have 2: "fst (checkRamUsage degraded_env start) = Inr (Num 0)" by (rule rev_mp)
  from T have "isl (si_fsSize degraded_env) \<or> si_fsSize degraded_env = Inr []
      \<longrightarrow> fst (checkDiskUsage degraded_env start) = Inr (Num 0)"
    by (elim conjE)
  with d(3) have 3: "fst (checkDiskUsage degraded_env start) = Inr (Num 0)" by blast
  from T have "isl (si_mem degraded_env Swap) \<longrightarrow> fst (checkSwapUsage degraded_env start) = Inr (Num 0)"
    by (elim conjE)
  with d(4) have 4: "fst (checkSwapUsage degraded_env start) = Inr (Num 0)" by (rule rev_mp)
  from T have "isl (os_loadavg degraded_env) \<longrightarrow> fst (checkLoadAverage degraded_env start) = Inr (Num 0)"
    by (elim conjE)
  with d(5) have 5: "fst (checkLoadAverage degraded_env start) = Inr (Num 0)" by (rule rev_mp)
  from T have "isl (si_networkStats degraded_env 0) \<or> isl (si_networkStats degraded_env 1)
      \<or> si_networkStats degraded_env 0 = Inr [] \<or> si_networkStats degraded_env 1 = Inr []
      \<longrightarrow> fst (checkNetworkUsage degraded_env start) = Inr (Num 0, Num 0)"
    by (elim conjE)
  with d(6) have 6: "fst (checkNetworkUsage degraded_env start) = Inr (Num 0, Num 0)" by blast
  let ?s1 = "\<lparr>rx_bytes = 2000, tx_bytes = 0\<rparr>" and ?s2 = "\<lparr>rx_bytes = 1000, tx_bytes = 0\<rparr>"
  from readers_total[where env = counter_reset_env and w = start
        and ?s1.0 = ?s1 and ?rest1.0 = "[]" and ?s2.0 = ?s2 and ?rest2.0 = "[]"]
  have "network_monitor (cfg counter_reset_env) \<and> si_networkStats counter_reset_env 0 = Inr [?s1]
           \<and> si_networkStats counter_reset_env 1 = Inr [?s2]
           \<longrightarrow> (\<exists>rx tx. fst (checkNetworkUsage counter_reset_env start) = Inr (rx, tx)
                  \<and> (js_ge rx (Num 0) \<longleftrightarrow> rx_bytes ?s1 \<le> rx_bytes ?s2)
                  \<and> (js_ge tx (Num 0) \<longleftrightarrow> tx_bytes ?s1 \<le> tx_bytes ?s2))"
    by (elim conjE)
  with c obtain rx tx where r: "fst (checkNetworkUsage counter_reset_env start) = Inr (rx, tx)"
    "js_ge rx (Num 0) \<longleftrightarrow> rx_bytes ?s1 \<le> rx_bytes ?s2"
    "js_ge tx (Num 0) \<longleftrightarrow> tx_bytes ?s1 \<le> tx_bytes ?s2"
    by blast
  from r have 7: "\<not> js_ge (fst (projr (fst (checkNetworkUsage counter_reset_env start)))) (Num 0)"
    "js_ge (snd (projr (fst (checkNetworkUsage counter_reset_env start)))) (Num 0)"
    by simp_all
  from d c 1 2 3 4 5 6 7 show ?thesis by simp
qed

lemma only_storeAlert: "only notifier_event (storeAlert env k u m b)"
  unfolding storeAlert_def by (auto simp: Let_def intro!: only_intros)

lemma nothrow_storeAlert: "nothrow (storeAlert env k u m b)"
  unfolding storeAlert_def by (auto intro!: nothrow_intros)

lemma only_storeMetrics: "only store_event (storeMetrics env m si)"
  unfolding storeMetrics_def by (auto simp: Let_def intro!: only_intros split: option.splits)

lemma nothrow_storeMetrics: "nothrow (storeMetrics env m si)"
  unfolding storeMetrics_def by (auto intro!: nothrow_intros)

lemma only_setGauge: "only registry_event (setGauge env g v)"
  unfolding setGauge_def by (auto intro!: only_intros)

lemma only_updatePrometheusMetrics: "only registry_event (updatePrometheusMetrics env m)"
  unfolding updatePrometheusMetrics_def
  by (auto intro!: only_intros only_setGauge split: option.splits)

lemma nothrow_updatePrometheusMetrics: "nothrow (updatePrometheusMetrics env m)"
  unfolding updatePrometheusMetrics_def by (auto intro!: nothrow_intros)

lemma only_updateStatusFile: "only status_event (updateStatusFile env m)"
  unfolding updateStatusFile_def by (auto intro!: only_intros)

lemma nothrow_updateStatusFile: "nothrow (updateStatusFile env m)"
  unfolding updateStatusFile_def by (auto intro!: nothrow_intros)

lemma sink_event_cases:
  "store_event e \<Longrightarrow> sink_event e" "registry_event e \<Longrightarrow> sink_event e"
  "status_event e \<Longrightarrow> sink_event e"
  by (cases e; simp)+

lemma nothrow_sendAttempt: "nothrow (sendAttempt env k u m t)"
  unfolding nothrow_def
proof
  fix f
  obtain r f' where 1: "sendAttempt env k u m t f = (r, f')" by (cases "sendAttempt env k u m t f")
  from sendAttempt_progress[OF 1] 1 show "\<exists>x s'. sendAttempt env k u m t f = (Inr x, s')" by simp
qed


lemma only_fanOut: "only sink_event (fanOut env m)"
proof -
  have 1: "only sink_event (storeMetrics env m si)" for si
    by (rule only_mono[OF only_storeMetrics]) (rule sink_event_cases)
  have 2: "only sink_event (updatePrometheusMetrics env m)"
    by (rule only_mono[OF only_updatePrometheusMetrics]) (rule sink_event_cases)
  have 3: "only sink_event (updateStatusFile env m)"
    by (rule only_mono[OF only_updateStatusFile]) (rule sink_event_cases)
  show ?thesis
    unfolding fanOut_def Let_def by (auto intro!: only_intros 1 2 3)
qed

lemma nothrow_fanOut: "nothrow (fanOut env m)"
  unfolding fanOut_def Let_def
  by (auto intro!: nothrow_intros nothrow_storeMetrics nothrow_updatePrometheusMetrics
      nothrow_updateStatusFile)

lemma only_sendAttempt: "only notifier_event (sendAttempt env k u m t)"
proof -
  have s: "only notifier_event (\<lambda>f. call (BotSend m) (bot_sendMessage env k (retry f)) f)"
    by (rule only_state[where q = "\<lambda>s. call (BotSend m) (bot_sendMessage env k (retry s))"])
      (simp add: only_call)
  have h: "only notifier_event (\<lambda>f. logger LWarn (ErrorSending (retry f) maxRetries (message e)) f)"
    for e
    by (rule only_state[where q = "\<lambda>s. logger LWarn (ErrorSending (retry s) maxRetries (message e))"])
      (simp add: only_logger)
  show ?thesis
    unfolding sendAttempt_def sendAttemptTry_def sendAttemptCatch_def
    by (auto intro!: only_intros only_storeAlert s h)
qed


lemma sendLoop_step:
  assumes "retry f < maxRetries" and "\<not> success f"
    and "sendAttempt env k u m t f = (Inr (), f')"
  shows "sendLoop env k u m t f = sendLoop env k u m t f'"
  using assms by (subst sendLoop.simps) simp

lemma sendLoop_done:
  "\<not> (retry f < maxRetries \<and> \<not> success f) \<Longrightarrow> sendLoop env k u m t f = (Inr (), f)"
  by (subst sendLoop.simps) auto

lemma sendLoop_props:
  "\<exists>f' evs. sendLoop env k u m t f = (Inr (), f') \<and> trace f' = trace f @ evs
     \<and> (\<forall>e\<in>set evs. notifier_event e)"
proof (induction env k u m t f rule: sendLoop.induct)
  case (1 env k u m t f)
  show ?case
  proof (cases "retry f < maxRetries \<and> \<not> success f")
    case False
    then show ?thesis by (simp add: sendLoop_done)
  next
    case True
    obtain r f1 where a: "sendAttempt env k u m t f = (r, f1)"
      by (cases "sendAttempt env k u m t f")
    from sendAttempt_progress[OF a] have r: "r = Inr ()" by simp
    from only_sendAttempt[of env k u m t] obtain e1
      where "trace (snd (sendAttempt env k u m t f)) = trace f @ e1" and q1: "\<forall>e\<in>set e1. notifier_event e"
      unfolding only_def by blast
    with a have t1: "trace f1 = trace f @ e1" by simp
    from "1.IH"[OF True a[symmetric] r] obtain f' e2
      where l: "sendLoop env k u m t f1 = (Inr (), f')" and t2: "trace f' = trace f1 @ e2"
        and q2: "\<forall>e\<in>set e2. notifier_event e"
      by blast
    from True a r have "sendLoop env k u m t f = sendLoop env k u m t f1"
      by (simp add: sendLoop_step)
    with l t1 t2 q1 q2 show ?thesis
      by (intro exI[of _ f'] exI[of _ "e1 @ e2"]) auto
  qed
qed

lemma nothrow_sendLoop: "nothrow (sendLoop env k u m t)"
  unfolding nothrow_def using sendLoop_props by blast

lemma only_sendLoop: "only notifier_event (sendLoop env k u m t)"
  unfolding only_def
proof
  fix f
  from sendLoop_props[of env k u m t f] show
    "\<exists>evs. trace (snd (sendLoop env k u m t f)) = trace f @ evs \<and> (\<forall>e\<in>set evs. notifier_event e)"
    by auto
qed


lemma only_afterLoop: "only notifier_event (afterLoop env k u m)"
  unfolding afterLoop_def
  by (rule only_state) (auto intro!: only_intros only_storeAlert)

lemma nothrow_afterLoop: "nothrow (afterLoop env k u m)"
  unfolding afterLoop_def
  by (rule nothrow_state) (auto intro!: nothrow_intros nothrow_storeAlert)

lemma only_deliver: "only notifier_event (deliver env k u t)"
  unfolding deliver_def
  by (auto intro!: only_intros only_sendLoop only_afterLoop)

lemma nothrow_deliver: "nothrow (deliver env k u t)"
  unfolding deliver_def by (auto intro!: nothrow_intros)

lemma only_rateLimit: "only notifier_event (rateLimit env k u t i)"
  unfolding rateLimit_def Let_def
  by (rule only_state) (auto intro!: only_intros only_deliver)

lemma nothrow_rateLimit: "nothrow (rateLimit env k u t i)"
  unfolding rateLimit_def Let_def
  by (rule nothrow_state) (auto intro!: nothrow_intros nothrow_deliver)

lemma nothrow_sendTelegramAlert: "nothrow (sendTelegramAlert env k u)"
  unfolding sendTelegramAlert_def Let_def
  by (intro nothrow_bind nothrow_emit nothrow_modify nothrow_rateLimit)

lemma only_after_marker:
  "only notifier_event
     (bind (modify (\<lambda>w::world. if lastAlertTimes w k = 0
                        then w\<lparr>lastAlertTimes := (lastAlertTimes w)(k := 0)\<rparr> else w)) (\<lambda>_.
      rateLimit env k u t i))"
  by (auto intro!: only_bind only_modify only_rateLimit)

lemma only_sendTelegramAlert: "only alert_event (sendTelegramAlert env k u)"
proof -
  have m: "only alert_event
     (bind (modify (\<lambda>w::world. if lastAlertTimes w k = 0
                        then w\<lparr>lastAlertTimes := (lastAlertTimes w)(k := 0)\<rparr> else w)) (\<lambda>_.
      rateLimit env k u t i))" for t i
    by (rule only_mono[OF only_after_marker]) (case_tac e; simp)
  show ?thesis
    unfolding sendTelegramAlert_def Let_def
    by (rule only_bind) (simp_all add: only_emit m)
qed

lemma adds_dispatch_sendTelegramAlert:
  "adds is_dispatch (sendTelegramAlert env k u) [Dispatch k u]"
proof -
  have q: "adds is_dispatch
     (bind (modify (\<lambda>w::world. if lastAlertTimes w k = 0
                        then w\<lparr>lastAlertTimes := (lastAlertTimes w)(k := 0)\<rparr> else w)) (\<lambda>_.
      rateLimit env k u t i)) []" for t i
    by (rule adds_only[OF only_after_marker]) (case_tac e; simp)
  have "adds is_dispatch (sendTelegramAlert env k u) ([Dispatch k u] @ [])"
    unfolding sendTelegramAlert_def Let_def
    by (rule adds_bind) (simp_all add: nothrow_emit adds_emit q)
  then show ?thesis by simp
qed


subsection \<open>The threshold checks\<close>

lemma nothrow_alert: "nothrow (alert env k u)"
  unfolding alert_def by (auto intro!: nothrow_intros nothrow_sendTelegramAlert)

lemma only_alert: "only alert_event (alert env k u)"
  unfolding alert_def
  by (auto intro!: only_intros only_sendTelegramAlert)

lemma adds_dispatch_alert: "adds is_dispatch (alert env k u) [Dispatch k u]"
proof -
  have 1: "adds is_dispatch (logger LWarn (HighUsage k u)) []"
    by (rule adds_only[OF only_logger[of reader_event]]) (simp, case_tac e, simp_all)
  have 2: "adds is_dispatch (bind (sendTelegramAlert env k u) (\<lambda>_. ret ())) ([Dispatch k u] @ [])"
    by (rule adds_bind) (simp_all add: nothrow_sendTelegramAlert adds_dispatch_sendTelegramAlert adds_ret)
  have "adds is_dispatch (alert env k u) ([] @ ([Dispatch k u] @ []) @ [])"
    unfolding alert_def
    by (intro adds_block_Cons adds_block_Nil 1 2 nothrow_logger nothrow_bind
        nothrow_sendTelegramAlert nothrow_ret)
  then show ?thesis by simp
qed

lemma only_checkThresholds: "only alert_event (checkThresholds env m)"
  unfolding checkThresholds_def Let_def
  by (auto intro!: only_intros only_alert split: option.splits)

lemma nothrow_checkThresholds:
  "network m \<noteq> None \<Longrightarrow> nothrow (checkThresholds env m)"
  unfolding checkThresholds_def Let_def
  by (auto intro!: nothrow_intros nothrow_alert)

lemma adds_dispatch_checkThresholds:
  assumes "network m = Some (rx, tx)"
  shows "adds is_dispatch (checkThresholds env m)
     ((if js_ge (to_number (ram m)) (Num (monitoring_threshold (cfg env)))
       then [Dispatch RAM (Percent (to_number (ram m)))] else [])
      @ (if cpu_monitor (cfg env) \<and> js_ge (to_number (cpu m)) (Num (cpu_threshold (cfg env)))
         then [Dispatch CPU (Percent (to_number (cpu m)))] else [])
      @ (if disk_monitor (cfg env) \<and> js_ge (to_number (disk m)) (Num (disk_threshold (cfg env)))
         then [Dispatch Disk (Percent (to_number (disk m)))] else [])
      @ (if swap_monitor (cfg env) \<and> js_ge (to_number (swap m)) (Num (swap_threshold (cfg env)))
            \<and> js_gt (to_number (swap m)) (Num 0)
         then [Dispatch Swap (Percent (to_number (swap m)))] else [])
      @ (if load_monitor (cfg env) \<and> js_ge (to_number (load m)) (Num (load_threshold (cfg env)))
         then [Dispatch Load
                 (LoadFigures
                    (num_mul env (num_div env (to_number (load m)) (Num 100))
                       (Num (of_nat (os_cpus_length env))))
                    (num_div env (to_number (load m)) (Num 100)))]
         else [])
      @ (if network_monitor (cfg env)
         then (if js_ge rx (Num (network_threshold (cfg env)))
                  \<or> js_ge tx (Num (network_threshold (cfg env)))
               then [Dispatch Network (NetworkFigures rx tx)] else [])
         else [])
      @ [])"
  unfolding checkThresholds_def Let_def
  by (simp only: assms option.case prod.case)
    (intro adds_block_Cons adds_block_Nil adds_whenever adds_dispatch_alert
      nothrow_whenever nothrow_alert)

lemma dispatched_append: "dispatched (a @ b) = dispatched a @ dispatched b"
  by (simp add: dispatched_def)

lemma dispatched_filter: "dispatched (filter is_dispatch tr) = dispatched tr"
proof (induction tr)
  case Nil
  show ?case by simp
next
  case (Cons e tr)
  then show ?case by (cases e) (simp_all add: dispatched_def)
qed

lemma dispatched_only:
  assumes "\<forall>e\<in>set tr. Q e" and "\<And>e. Q e \<Longrightarrow> \<not> is_dispatch e"
  shows "dispatched tr = []"
proof -
  from assms have "filter is_dispatch tr = []" by (auto simp: filter_empty_conv)
  with dispatched_filter[of tr] show ?thesis by (simp add: dispatched_def)
qed

lemma dispatched_checkThresholds:
  assumes "network m = Some (rx, tx)"
  shows "dispatched (added (checkThresholds env m) w) = breaches (cfg env) m"
proof -
  have "dispatched (added (checkThresholds env m) w)
        = dispatched (filter is_dispatch (added (checkThresholds env m) w))"
    by (simp add: dispatched_filter)
  also have "\<dots> = breaches (cfg env) m"
    unfolding adds_added[OF adds_dispatch_checkThresholds[OF assms]]
    by (simp add: dispatched_def breaches_def assms)
  finally show ?thesis .
qed


subsection \<open>A tick, part by part\<close>

lemma collectMetrics_run:
  fixes w :: world
  obtains v1 w1 v2 w2 v3 w3 v4 w4 v5 w5 v6 w6
  where "checkRamUsage env w = (Inr v1, w1)" and "checkCpuUsage env w1 = (Inr v2, w2)"
    and "checkDiskUsage env w2 = (Inr v3, w3)" and "checkSwapUsage env w3 = (Inr v4, w4)"
    and "checkLoadAverage env w4 = (Inr v5, w5)" and "checkNetworkUsage env w5 = (Inr v6, w6)"
    and "collectMetrics env w
         = (Inr \<lparr>ram = Some v1, cpu = Some v2, disk = Some v3, swap = Some v4,
                 load = Some v5, network = Some v6\<rparr>, w6)"
proof -
  obtain v1 w1 where 1: "checkRamUsage env w = (Inr v1, w1)"
    using nothrow_checkRamUsage unfolding nothrow_def by blast
  obtain v2 w2 where 2: "checkCpuUsage env w1 = (Inr v2, w2)"
    using nothrow_checkCpuUsage unfolding nothrow_def by blast
  obtain v3 w3 where 3: "checkDiskUsage env w2 = (Inr v3, w3)"
    using nothrow_checkDiskUsage unfolding nothrow_def by blast
  obtain v4 w4 where 4: "checkSwapUsage env w3 = (Inr v4, w4)"
    using nothrow_checkSwapUsage unfolding nothrow_def by blast
  obtain v5 w5 where 5: "checkLoadAverage env w4 = (Inr v5, w5)"
    using nothrow_checkLoadAverage unfolding nothrow_def by blast
  obtain v6 w6 where 6: "checkNetworkUsage env w5 = (Inr v6, w6)"
    using nothrow_checkNetworkUsage unfolding nothrow_def by blast
  have "collectMetrics env w
         = (Inr \<lparr>ram = Some v1, cpu = Some v2, disk = Some v3, swap = Some v4,
                 load = Some v5, network = Some v6\<rparr>, w6)"
    by (simp add: collectMetrics_def bind_def ret_def 1 2 3 4 5 6)
  with 1 2 3 4 5 6 show thesis by (rule that)
qed

lemma tick_parts:
  fixes w :: world
  assumes "collectMetrics env w = (Inr m, w1)" and "network m \<noteq> None"
  obtains w2 w3
  where "fanOut env m w1 = (Inr (), w2)" and "checkThresholds env m w2 = (Inr (), w3)"
    and "tick env w = (Inr (), w3)"
    and "added (tick env) w
         = added (collectMetrics env) w @ added (fanOut env m) w1 @ added (checkThresholds env m) w2"
proof -
  obtain w2 where 2: "fanOut env m w1 = (Inr (), w2)"
    using nothrow_fanOut[of env m] unfolding nothrow_def by (metis old.unit.exhaust)
  obtain w3 where 3: "checkThresholds env m w2 = (Inr (), w3)"
    using nothrow_checkThresholds[OF assms(2), of env] unfolding nothrow_def
    by (metis old.unit.exhaust)
  have t: "tick env w = (Inr (), w3)"
    by (simp add: tick_def try_catch_def bind_def assms(1) 2 3)
  have g1: "trace w1 = trace w @ added (collectMetrics env) w"
    using grows_added[OF only_collectMetrics, of env w] assms(1) by simp
  have g2: "trace w2 = trace w1 @ added (fanOut env m) w1"
    using grows_added[OF only_fanOut, of env m w1] 2 by simp
  have g3: "trace w3 = trace w2 @ added (checkThresholds env m) w2"
    using grows_added[OF only_checkThresholds, of env m w2] 3 by simp
  have "added (tick env) w
         = added (collectMetrics env) w @ added (fanOut env m) w1 @ added (checkThresholds env m) w2"
    by (simp add: added_def t g1 g2 g3)
  with 2 3 t show thesis by (rule that)
qed

lemma reader_not_dispatch: "reader_event e \<Longrightarrow> \<not> is_dispatch e"
  by (cases e) simp_all

lemma sink_not_dispatch: "sink_event e \<Longrightarrow> \<not> is_dispatch e"
  by (cases e) simp_all

lemma tick_dispatched:
  fixes w :: world
  assumes "collectMetrics env w = (Inr m, w1)" and "network m \<noteq> None"
  shows "dispatched (added (tick env) w) = breaches (cfg env) m"
proof -
  from assms(2) obtain rx tx where n: "network m = Some (rx, tx)" by (cases "network m") auto
  from tick_parts[OF assms] obtain w2 w3
    where a: "added (tick env) w
         = added (collectMetrics env) w @ added (fanOut env m) w1 @ added (checkThresholds env m) w2"
    by blast
  have 1: "dispatched (added (collectMetrics env) w) = []"
    by (rule dispatched_only[where Q = reader_event])
      (auto intro: only_added[OF only_collectMetrics] dest: reader_not_dispatch)
  have 2: "dispatched (added (fanOut env m) w1) = []"
    by (rule dispatched_only[where Q = sink_event])
      (auto intro: only_added[OF only_fanOut] dest: sink_not_dispatch)
  show ?thesis
    by (simp add: a dispatched_append 1 2 dispatched_checkThresholds[OF n])
qed


lemmas reader_defs = collectMetrics_def checkRamUsage_def checkCpuUsage_def checkDiskUsage_def
  checkSwapUsage_def checkLoadAverage_def checkNetworkUsage_def rate_def

lemma collectMetrics_sample:
  "collectMetrics sample_env start
   = (Inr \<lparr>ram = Some (Num 85), cpu = Some (Num 10), disk = Some (Num 40),
           swap = Some (Num 0), load = Some (Num 50), network = Some (Num 0, Num 0)\<rparr>,
      start\<lparr>trace := [Sleep 1000]\<rparr>)"
  by (simp add: reader_defs prog_defs sample_env_def sample_config_def start_def
      Math_round_numeral Math_round_zero del: Math_round.simps)

lemma collectMetrics_idle_swap:
  "collectMetrics idle_swap_env start
   = (Inr \<lparr>ram = Some (Num 85), cpu = Some (Num 10), disk = Some (Num 40),
           swap = Some (Num 0), load = Some (Num 50), network = Some (Num 0, Num 0)\<rparr>,
      start\<lparr>trace := [Sleep 1000]\<rparr>)"
  by (simp add: reader_defs prog_defs idle_swap_env_def sample_env_def sample_config_def start_def
      Math_round_numeral Math_round_zero del: Math_round.simps)

text \<open>
  C1, as stated, fails: with swap monitoring enabled, a swap threshold of 0 and a swap
  reading of 0, the reading meets the threshold, and no Swap dispatch is attempted.
\<close>

theorem dispatch_claimed_counterexample:
  "fst (collectMetrics idle_swap_env start)
     = Inr \<lparr>ram = Some (Num 85), cpu = Some (Num 10), disk = Some (Num 40),
            swap = Some (Num 0), load = Some (Num 50), network = Some (Num 0, Num 0)\<rparr>
   \<and> breaches_claimed (cfg idle_swap_env)
        \<lparr>ram = Some (Num 85), cpu = Some (Num 10), disk = Some (Num 40),
         swap = Some (Num 0), load = Some (Num 50), network = Some (Num 0, Num 0)\<rparr>
       = [RAM, Swap]
   \<and> dispatched (added (tick idle_swap_env) start) = [RAM]"
proof -
  let ?m = "\<lparr>ram = Some (Num 85), cpu = Some (Num 10), disk = Some (Num 40),
             swap = Some (Num 0), load = Some (Num 50), network = Some (Num 0, Num 0)\<rparr>"
  have c: "cfg idle_swap_env = sample_config\<lparr>swap_threshold := 0\<rparr>"
    by (simp add: idle_swap_env_def sample_env_def)
  have 1: "fst (collectMetrics idle_swap_env start) = Inr ?m"
    by (simp add: collectMetrics_idle_swap)
  have 2: "breaches_claimed (cfg idle_swap_env) ?m = [RAM, Swap]"
    by (simp add: c breaches_claimed_def sample_config_def)
  have "dispatched (added (tick idle_swap_env) start) = breaches (cfg idle_swap_env) ?m"
    by (rule tick_dispatched[OF collectMetrics_idle_swap]) simp
  also have "\<dots> = [RAM]"
    by (simp add: c breaches_def sample_config_def)
  finally show ?thesis using 1 2 by simp
qed

text \<open>
  C1, amended. In every tick a dispatch is attempted for exactly the kinds whose
  monitoring is enabled and whose reading is at least the threshold (RAM always, against
  the global threshold; Network when either rate meets the network threshold), a Swap
  dispatch asking for a swap reading above 0 as well; the dispatches come in the order
  RAM, CPU, Disk, Swap, Load, Network.
\<close>

theorem tick_dispatch_order:
  fixes w :: world
  shows "\<exists>m w1. collectMetrics env w = (Inr m, w1)
           \<and> dispatched (added (tick env) w) = breaches (cfg env) m"
proof -
  obtain v1 w1 v2 w2 v3 w3 v4 w4 v5 w5 v6 w6
    where "checkRamUsage env w = (Inr v1, w1)" and "checkCpuUsage env w1 = (Inr v2, w2)"
      and "checkDiskUsage env w2 = (Inr v3, w3)" and "checkSwapUsage env w3 = (Inr v4, w4)"
      and "checkLoadAverage env w4 = (Inr v5, w5)" and "checkNetworkUsage env w5 = (Inr v6, w6)"
      and c: "collectMetrics env w
         = (Inr \<lparr>ram = Some v1, cpu = Some v2, disk = Some v3, swap = Some v4,
                 load = Some v5, network = Some v6\<rparr>, w6)"
    by (rule collectMetrics_run)
  have "dispatched (added (tick env) w)
        = breaches (cfg env) \<lparr>ram = Some v1, cpu = Some v2, disk = Some v3, swap = Some v4,
                 load = Some v5, network = Some v6\<rparr>"
    by (rule tick_dispatched[OF c]) simp
  with c show ?thesis by blast
qed

theorem tick_dispatch_order_witness:
  "dispatched (added (tick sample_env) start) = [RAM]"
proof -
  have c: "cfg sample_env = sample_config"
    by (simp add: sample_env_def)
  from tick_dispatch_order[of sample_env start] show ?thesis
  proof (elim exE conjE)
    fix m w1
    assume "collectMetrics sample_env start = (Inr m, w1)"
      and d: "dispatched (added (tick sample_env) start) = breaches (cfg sample_env) m"
    then have "m = \<lparr>ram = Some (Num 85), cpu = Some (Num 10), disk = Some (Num 40),
           swap = Some (Num 0), load = Some (Num 50), network = Some (Num 0, Num 0)\<rparr>"
      by (simp add: collectMetrics_sample)
    with d show ?thesis
      by (simp add: c breaches_def sample_config_def)
  qed
qed

lemma Swap_in_breaches:
  "Swap \<in> set (breaches c m)
   \<longleftrightarrow> swap_monitor c \<and> js_ge (to_number (swap m)) (Num (swap_threshold c))
       \<and> js_gt (to_number (swap m)) (Num 0)"
  by (simp add: breaches_def)

text \<open>
  C9. A Swap dispatch is attempted only when the swap reading is above 0: a tick whose
  swap reading is 0 attempts no Swap alert, whatever the swap threshold; and the reading is
  0 when swap monitoring is off or the host has no swap.
\<close>

theorem swap_dispatch_positive:
  fixes w :: world
  shows "\<exists>m w1. collectMetrics env w = (Inr m, w1)
     \<and> (Swap \<in> set (dispatched (added (tick env) w))
          \<longleftrightarrow> swap_monitor (cfg env)
              \<and> js_ge (to_number (swap m)) (Num (swap_threshold (cfg env)))
              \<and> js_gt (to_number (swap m)) (Num 0))
     \<and> (to_number (swap m) = Num 0 \<longrightarrow> Swap \<notin> set (dispatched (added (tick env) w)))
     \<and> (\<not> swap_monitor (cfg env) \<longrightarrow> swap m = Some (Num 0))
     \<and> (si_mem env Swap = Inr memInfo \<and> swaptotal memInfo = Num 0 \<longrightarrow> swap m = Some (Num 0))"
proof -
  obtain v1 w1 v2 w2 v3 w3 v4 w4 v5 w5 v6 w6
    where "checkRamUsage env w = (Inr v1, w1)" and "checkCpuUsage env w1 = (Inr v2, w2)"
      and "checkDiskUsage env w2 = (Inr v3, w3)" and s: "checkSwapUsage env w3 = (Inr v4, w4)"
      and "checkLoadAverage env w4 = (Inr v5, w5)" and "checkNetworkUsage env w5 = (Inr v6, w6)"
      and c: "collectMetrics env w
         = (Inr \<lparr>ram = Some v1, cpu = Some v2, disk = Some v3, swap = Some v4,
                 load = Some v5, network = Some v6\<rparr>, w6)"
    by (rule collectMetrics_run)
  let ?m = "\<lparr>ram = Some v1, cpu = Some v2, disk = Some v3, swap = Some v4,
                 load = Some v5, network = Some v6\<rparr>"
  have d: "dispatched (added (tick env) w) = breaches (cfg env) ?m"
    by (rule tick_dispatched[OF c]) simp
  have 1: "Swap \<in> set (dispatched (added (tick env) w))
          \<longleftrightarrow> swap_monitor (cfg env)
              \<and> js_ge (to_number (swap ?m)) (Num (swap_threshold (cfg env)))
              \<and> js_gt (to_number (swap ?m)) (Num 0)"
    unfolding d by (rule Swap_in_breaches)
  have 2: "to_number (swap ?m) = Num 0 \<longrightarrow> Swap \<notin> set (dispatched (added (tick env) w))"
    unfolding d Swap_in_breaches by simp
  have 3: "\<not> swap_monitor (cfg env) \<longrightarrow> swap ?m = Some (Num 0)"
    using s by (auto simp: checkSwapUsage_disabled)
  have 4: "si_mem env Swap = Inr memInfo \<and> swaptotal memInfo = Num 0 \<longrightarrow> swap ?m = Some (Num 0)"
    using s by (cases "swap_monitor (cfg env)") (auto simp: checkSwapUsage_disabled checkSwapUsage_no_swap)
  from c 1 2 3 4 show ?thesis by blast
qed

theorem swap_dispatch_positive_witness:
  "swap_monitor (cfg idle_swap_env) \<and> swap_threshold (cfg idle_swap_env) = 0
   \<and> si_mem idle_swap_env Swap
       = Inr \<lparr>total = Num 8000, used = Num 6800, swaptotal = Num 0, swapused = Num 0\<rparr>
   \<and> Swap \<notin> set (dispatched (added (tick idle_swap_env) start))"
proof -
  let ?mi = "\<lparr>total = Num 8000, used = Num 6800, swaptotal = Num 0, swapused = Num 0\<rparr>"
  have h: "swap_monitor (cfg idle_swap_env)" "swap_threshold (cfg idle_swap_env) = 0"
    "si_mem idle_swap_env Swap = Inr ?mi"
    by (simp_all add: idle_swap_env_def sample_env_def sample_config_def)
  from swap_dispatch_positive[of idle_swap_env start ?mi]
  have "Swap \<notin> set (dispatched (added (tick idle_swap_env) start))"
  proof (elim exE conjE)
    fix m w1
    assume a: "to_number (swap m) = Num 0
               \<longrightarrow> Swap \<notin> set (dispatched (added (tick idle_swap_env) start))"
      and b: "si_mem idle_swap_env Swap = Inr ?mi \<and> swaptotal ?mi = Num 0
               \<longrightarrow> swap m = Some (Num 0)"
    from b h(3) have "swap m = Some (Num 0)" by simp
    with a show ?thesis by simp
  qed
  with h show ?thesis by simp
qed

subsection \<open>What the sinks add\<close>

lemma added_ret_unit: "added (bind m (\<lambda>_. ret ())) w = added m w"
  by (simp add: added_def bind_def ret_def split: prod.splits sum.splits)

lemma added_whenever: "added (whenever c p) w = (if c then added p w else [])"
  by (simp add: whenever_def added_def ret_def)

lemma added_eqI: "trace (snd (p w)) = trace w @ es \<Longrightarrow> added p w = es"
  by (simp add: added_def)

lemma added_block_Cons:
  assumes "p w = (Inr (), w1)" and "only Q p" and "only Q' (block ps)"
  shows "added (block (p # ps)) w = added p w @ added (block ps) w1"
proof (rule added_eqI)
  have 1: "trace w1 = trace w @ added p w"
    using grows_added[OF assms(2), of w] assms(1) by simp
  have 2: "trace (snd (block ps w1)) = trace w1 @ added (block ps) w1"
    by (rule grows_added[OF assms(3)])
  have "trace (snd (block (p # ps) w)) = trace (snd (block ps w1))"
    by (simp add: bind_def assms(1))
  also have "\<dots> = trace w1 @ added (block ps) w1" by (rule 2)
  also have "\<dots> = trace w @ added p w @ added (block ps) w1" by (simp only: 1 append_assoc)
  finally show "trace (snd (block (p # ps) w)) = trace w @ added p w @ added (block ps) w1" .
qed


lemma storeMetrics_added:
  "added (storeMetrics env m si) w =
     (if \<not> db env \<or> \<not> database_enabled (cfg env) then []
      else [DbStoreMetrics
              \<lparr>m_timestamp = isoTimestamp env AtStoreMetrics, m_hostname = hostname si,
               m_ip_address = ip si,
               m_ram_usage = or_zero (ram m), m_cpu_usage = or_zero (cpu m),
               m_disk_usage = or_zero (disk m), m_swap_usage = or_zero (swap m),
               m_load_average = or_zero (load m),
               m_network_rx = (case network m of Some (rx, tx) \<Rightarrow> rx | None \<Rightarrow> Num 0),
               m_network_tx = (case network m of Some (rx, tx) \<Rightarrow> tx | None \<Rightarrow> Num 0),
               m_extra_data = None\<rparr>,
            (case db_storeMetrics env of
               None \<Rightarrow> Log LDebug MetricsStored
             | Some e \<Rightarrow> Log LError (FailedStoreMetrics (message e)))])"
  by (auto simp: added_def storeMetrics_def prog_defs Let_def split: option.splits)

lemma updateStatusFile_added:
  "added (updateStatusFile env m) w =
     WriteStatus (statusContent env m)
     # (case fs_writeFileSync env of
          None \<Rightarrow> []
        | Some e \<Rightarrow> [Log LError (ErrorStatusFile (message e))])"
  by (auto simp: added_def updateStatusFile_def prog_defs split: option.splits)


lemma updatePrometheusMetrics_added_off:
  "\<not> prometheus env \<or> \<not> prometheus_enabled (cfg env)
   \<Longrightarrow> added (updatePrometheusMetrics env m) w = []"
  by (auto simp: added_def updatePrometheusMetrics_def ret_def)

lemma updatePrometheusMetrics_first:
  assumes "prometheus env" and "prometheus_enabled (cfg env)"
  shows "\<exists>rest. added (updatePrometheusMetrics env m) w
           = GaugeSet Gauge_ramUsage (or_zero (ram m)) # rest"
proof -
  let ?E = "GaugeSet Gauge_ramUsage (or_zero (ram m))"
  let ?rest = "[setGauge env Gauge_cpuUsage (or_zero (cpu m)),
            setGauge env Gauge_diskUsage (or_zero (disk m)),
            setGauge env Gauge_swapUsage (or_zero (swap m)),
            setGauge env Gauge_loadAverage (or_zero (load m)),
            (case network m of
               Some (rx, tx) \<Rightarrow>
                 block [setGauge env Gauge_networkRx rx, setGauge env Gauge_networkTx tx]
             | None \<Rightarrow> ret ()),
            logger LDebug PrometheusUpdated]"
  let ?h = "\<lambda>error. bind (logger LError (FailedPrometheus (message error))) (\<lambda>_. ret False)"
  let ?w1 = "w\<lparr>trace := trace w @ [?E]\<rparr>"
  let ?k = "try_catch (bind (case gauge_set env Gauge_ramUsage of None \<Rightarrow> ret () | Some err \<Rightarrow> throw err)
      (\<lambda>_. bind (block ?rest) (\<lambda>_. ret True))) ?h"
  have o: "only registry_event ?k"
    by (auto intro!: only_intros only_setGauge split: option.splits)
  have e: "updatePrometheusMetrics env m w = ?k ?w1"
    using assms
    by (simp add: updatePrometheusMetrics_def setGauge_def call_def emit_def bind_def try_catch_def
        split: prod.splits sum.splits)
  from grows_added[OF o, of ?w1] have "trace (snd (?k ?w1)) = trace w @ ?E # added ?k ?w1"
    by simp
  then have "trace (snd (updatePrometheusMetrics env m w)) = trace w @ ?E # added ?k ?w1"
    by (simp only: e)
  then have "added (updatePrometheusMetrics env m) w = ?E # added ?k ?w1"
    by (rule added_eqI)
  then show ?thesis by blast
qed


lemma run_unit:
  assumes "nothrow p"
  obtains s' where "p s = (Inr (), s')"
  using assms unfolding nothrow_def by (metis old.unit.exhaust)

lemma fanOut_added:
  fixes w :: world
  obtains wa wb :: world
  where "added (fanOut env m) w
         = (if database_enabled (cfg env)
            then added (storeMetrics env m (getSystemInfo env AtTick)) w else [])
           @ (if prometheus_enabled (cfg env) then added (updatePrometheusMetrics env m) wa else [])
           @ added (updateStatusFile env m) wb"
proof -
  let ?s1 = "whenever (database_enabled (cfg env))
               (bind (storeMetrics env m (getSystemInfo env AtTick)) (\<lambda>_. ret ()))"
  let ?s2 = "whenever (prometheus_enabled (cfg env))
               (bind (updatePrometheusMetrics env m) (\<lambda>_. ret ()))"
  let ?s3 = "updateStatusFile env m"
  have n1: "nothrow ?s1" by (intro nothrow_intros nothrow_storeMetrics)
  have n2: "nothrow ?s2" by (intro nothrow_intros nothrow_updatePrometheusMetrics)
  have n3: "nothrow ?s3" by (rule nothrow_updateStatusFile)
  have o1: "only store_event ?s1" by (intro only_intros only_storeMetrics)
  have o2: "only registry_event ?s2" by (intro only_intros only_updatePrometheusMetrics)
  have o3: "only status_event ?s3" by (rule only_updateStatusFile)
  obtain wa where 1: "?s1 w = (Inr (), wa)" by (rule run_unit[OF n1])
  obtain wb where 2: "?s2 wa = (Inr (), wb)" by (rule run_unit[OF n2])
  obtain wc where 3: "?s3 wb = (Inr (), wc)" by (rule run_unit[OF n3])
  have b3: "only status_event (block [?s3])"
    by (rule only_block) (auto simp: o3)
  have s2: "only sink_event ?s2"
    by (rule only_mono[OF o2]) (rule sink_event_cases)
  have s3: "only sink_event ?s3"
    by (rule only_mono[OF o3]) (rule sink_event_cases)
  have b2: "only sink_event (block [?s2, ?s3])"
    by (rule only_block) (auto simp: s2 s3)
  have b0: "only status_event (block [])"
    by (simp add: only_ret)
  have a0: "added (block []) wc = []"
    by (simp add: added_def ret_def)
  have a3: "added (block [?s3]) wb = added ?s3 wb"
    using added_block_Cons[OF 3 o3 b0] by (simp only: a0 append_Nil2)
  have a2: "added (block [?s2, ?s3]) wa = added ?s2 wa @ added ?s3 wb"
    using added_block_Cons[OF 2 o2 b3] a3 by simp
  have a1: "added (block [?s1, ?s2, ?s3]) w = added ?s1 w @ added ?s2 wa @ added ?s3 wb"
    using added_block_Cons[OF 1 o1 b2] a2 by simp
  have "added (fanOut env m) w
         = (if database_enabled (cfg env)
            then added (storeMetrics env m (getSystemInfo env AtTick)) w else [])
           @ (if prometheus_enabled (cfg env) then added (updatePrometheusMetrics env m) wa else [])
           @ added (updateStatusFile env m) wb"
    unfolding fanOut_def Let_def a1 by (simp add: added_whenever added_ret_unit)
  then show thesis by (rule that)
qed



lemma block_throws:
  assumes "p \<in> set ps" and "\<And>s. isl (fst (p s))"
  shows "isl (fst (block ps s))"
  using assms(1)
proof (induction ps arbitrary: s)
  case Nil
  then show ?case by simp
next
  case (Cons q qs)
  obtain r s1 where q: "q s = (r, s1)" by (cases "q s")
  show ?case
  proof (cases r)
    case (Inl e)
    with q show ?thesis by (simp add: bind_def)
  next
    case (Inr u)
    with q assms(2)[of s] have "p \<noteq> q" by auto
    with Cons.prems have "p \<in> set qs" by simp
    from Cons.IH[OF this, of s1] q Inr show ?thesis by (simp add: bind_def)
  qed
qed

lemma setGauge_throws: "gauge_set env g = Some e \<Longrightarrow> isl (fst (setGauge env g v s))"
  by (simp add: setGauge_def prog_defs)

lemma updatePrometheusMetrics_failure_logged:
  fixes w :: world
  assumes "prometheus env" and "prometheus_enabled (cfg env)"
    and "gauge_set env g = Some e"
    and "g \<in> {Gauge_ramUsage, Gauge_cpuUsage, Gauge_diskUsage, Gauge_swapUsage, Gauge_loadAverage}"
  shows "\<exists>e'. Log LError (FailedPrometheus (message e')) \<in> set (added (updatePrometheusMetrics env m) w)"
proof -
  let ?ps = "[setGauge env Gauge_ramUsage (or_zero (ram m)),
            setGauge env Gauge_cpuUsage (or_zero (cpu m)),
            setGauge env Gauge_diskUsage (or_zero (disk m)),
            setGauge env Gauge_swapUsage (or_zero (swap m)),
            setGauge env Gauge_loadAverage (or_zero (load m)),
            (case network m of
               Some (rx, tx) \<Rightarrow>
                 block [setGauge env Gauge_networkRx rx, setGauge env Gauge_networkTx tx]
             | None \<Rightarrow> ret ()),
            logger LDebug PrometheusUpdated] :: (world, unit) prog list"
  from assms(4) obtain v where "setGauge env g v \<in> set ?ps" by auto
  from block_throws[OF this setGauge_throws[OF assms(3)], of w]
  obtain e' w1 where b: "block ?ps w = (Inl e', w1)"
    by (cases "block ?ps w") (auto simp: isl_def)
  have "only registry_event (block ?ps)"
    by (rule only_block) (auto intro!: only_intros only_setGauge split: option.splits)
  from grows_added[OF this, of w] b have t1: "trace w1 = trace w @ added (block ?ps) w"
    by simp
  have "trace (snd (updatePrometheusMetrics env m w))
        = trace w @ (added (block ?ps) w @ [Log LError (FailedPrometheus (message e'))])"
    using assms(1,2) b t1
    by (simp add: updatePrometheusMetrics_def try_catch_def bind_def logger_def emit_def ret_def)
  then have "added (updatePrometheusMetrics env m) w
             = added (block ?ps) w @ [Log LError (FailedPrometheus (message e'))]"
    by (rule added_eqI)
  then show ?thesis by auto
qed








lemma nothrow_not_isl: "nothrow p \<Longrightarrow> \<not> isl (fst (p s))"
  unfolding nothrow_def by (metis fst_conv sum.disc(2))

lemma storeMetrics_offered:
  assumes "db env" and "database_enabled (cfg env)"
  shows "\<exists>r x. added (storeMetrics env m si) w = [DbStoreMetrics r, x]
           \<and> m_ram_usage r = or_zero (ram m)"
  using assms by (simp add: storeMetrics_added)

lemma tick_sinks:
  fixes w :: world
  assumes "collectMetrics env w = (Inr m, w1)" and "network m \<noteq> None"
  shows "(db env \<and> database_enabled (cfg env)
          \<longrightarrow> (\<exists>r. DbStoreMetrics r \<in> set (added (tick env) w) \<and> m_ram_usage r = or_zero (ram m)))
     \<and> (prometheus env \<and> prometheus_enabled (cfg env)
          \<longrightarrow> GaugeSet Gauge_ramUsage (or_zero (ram m)) \<in> set (added (tick env) w))
     \<and> WriteStatus (statusContent env m) \<in> set (added (tick env) w)"
proof -
  obtain w2 w3 where a: "added (tick env) w
         = added (collectMetrics env) w @ added (fanOut env m) w1 @ added (checkThresholds env m) w2"
    using tick_parts[OF assms] by blast
  obtain wa wb :: world where f: "added (fanOut env m) w1
         = (if database_enabled (cfg env)
            then added (storeMetrics env m (getSystemInfo env AtTick)) w1 else [])
           @ (if prometheus_enabled (cfg env) then added (updatePrometheusMetrics env m) wa else [])
           @ added (updateStatusFile env m) wb"
    by (rule fanOut_added[of env m w1])
  have sub: "e \<in> set (added (fanOut env m) w1) \<Longrightarrow> e \<in> set (added (tick env) w)" for e
    by (simp only: a set_append Un_iff) blast
  have 1: "db env \<and> database_enabled (cfg env)
          \<longrightarrow> (\<exists>r. DbStoreMetrics r \<in> set (added (tick env) w) \<and> m_ram_usage r = or_zero (ram m))"
  proof
    assume p: "db env \<and> database_enabled (cfg env)"
    then obtain r x where s: "added (storeMetrics env m (getSystemInfo env AtTick)) w1 = [DbStoreMetrics r, x]"
      and u: "m_ram_usage r = or_zero (ram m)"
      using storeMetrics_offered[of env m "getSystemInfo env AtTick" w1] by blast
    from p have "DbStoreMetrics r \<in> set (added (fanOut env m) w1)"
      by (simp only: f s if_True set_append Un_iff) simp
    with u show "\<exists>r. DbStoreMetrics r \<in> set (added (tick env) w) \<and> m_ram_usage r = or_zero (ram m)"
      by (blast intro: sub)
  qed
  have 2: "prometheus env \<and> prometheus_enabled (cfg env)
          \<longrightarrow> GaugeSet Gauge_ramUsage (or_zero (ram m)) \<in> set (added (tick env) w)"
  proof
    assume p: "prometheus env \<and> prometheus_enabled (cfg env)"
    then obtain rest where g: "added (updatePrometheusMetrics env m) wa
           = GaugeSet Gauge_ramUsage (or_zero (ram m)) # rest"
      using updatePrometheusMetrics_first[of env m wa] by blast
    from p have "GaugeSet Gauge_ramUsage (or_zero (ram m)) \<in> set (added (fanOut env m) w1)"
      by (simp only: f g if_True set_append Un_iff) simp
    then show "GaugeSet Gauge_ramUsage (or_zero (ram m)) \<in> set (added (tick env) w)"
      by (rule sub)
  qed
  have "WriteStatus (statusContent env m) \<in> set (added (fanOut env m) w1)"
    by (simp only: f updateStatusFile_added set_append Un_iff) simp
  then have 3: "WriteStatus (statusContent env m) \<in> set (added (tick env) w)"
    by (rule sub)
  from 1 2 3 show ?thesis by (intro conjI)
qed

text \<open>
  C6. Each of the three sink actions returns, and logs the error it caught; in every
  tick, whichever of them fail, the metric record is offered to the store and the
  registry update is begun (when they are enabled), the status file is written, and the
  threshold checks dispatch the alerts of the tick.
\<close>

theorem sinks_isolated:
  fixes w :: world
  shows
   "\<not> isl (fst (storeMetrics env m si w))
    \<and> \<not> isl (fst (updatePrometheusMetrics env m w))
    \<and> \<not> isl (fst (updateStatusFile env m w))
    \<and> (db env \<and> database_enabled (cfg env) \<and> db_storeMetrics env = Some e1
         \<longrightarrow> Log LError (FailedStoreMetrics (message e1)) \<in> set (added (storeMetrics env m si) w))
    \<and> (prometheus env \<and> prometheus_enabled (cfg env) \<and> gauge_set env g = Some e2
         \<and> g \<in> {Gauge_ramUsage, Gauge_cpuUsage, Gauge_diskUsage, Gauge_swapUsage,
                  Gauge_loadAverage}
         \<longrightarrow> (\<exists>e'. Log LError (FailedPrometheus (message e'))
                    \<in> set (added (updatePrometheusMetrics env m) w)))
    \<and> (fs_writeFileSync env = Some e3
         \<longrightarrow> Log LError (ErrorStatusFile (message e3)) \<in> set (added (updateStatusFile env m) w))
    \<and> (\<exists>mt w1. collectMetrics env w = (Inr mt, w1) \<and> \<not> isl (fst (tick env w))
         \<and> (db env \<and> database_enabled (cfg env)
              \<longrightarrow> (\<exists>r. DbStoreMetrics r \<in> set (added (tick env) w)
                       \<and> m_ram_usage r = or_zero (ram mt)))
         \<and> (prometheus env \<and> prometheus_enabled (cfg env)
              \<longrightarrow> GaugeSet Gauge_ramUsage (or_zero (ram mt)) \<in> set (added (tick env) w))
         \<and> WriteStatus (statusContent env mt) \<in> set (added (tick env) w)
         \<and> dispatched (added (tick env) w) = breaches (cfg env) mt)"
proof -
  have r: "\<not> isl (fst (storeMetrics env m si w))" "\<not> isl (fst (updatePrometheusMetrics env m w))"
    "\<not> isl (fst (updateStatusFile env m w))"
    by (rule nothrow_not_isl, rule nothrow_storeMetrics nothrow_updatePrometheusMetrics
        nothrow_updateStatusFile)+
  have l1: "db env \<and> database_enabled (cfg env) \<and> db_storeMetrics env = Some e1
         \<longrightarrow> Log LError (FailedStoreMetrics (message e1)) \<in> set (added (storeMetrics env m si) w)"
    by (simp add: storeMetrics_added)
  have l2: "prometheus env \<and> prometheus_enabled (cfg env) \<and> gauge_set env g = Some e2
         \<and> g \<in> {Gauge_ramUsage, Gauge_cpuUsage, Gauge_diskUsage, Gauge_swapUsage,
                  Gauge_loadAverage}
         \<longrightarrow> (\<exists>e'. Log LError (FailedPrometheus (message e'))
                    \<in> set (added (updatePrometheusMetrics env m) w))"
    using updatePrometheusMetrics_failure_logged[of env g e2 m w] by blast
  have l3: "fs_writeFileSync env = Some e3
         \<longrightarrow> Log LError (ErrorStatusFile (message e3)) \<in> set (added (updateStatusFile env m) w)"
    by (simp add: updateStatusFile_added)
  obtain v1 w1 v2 w2 v3 w3 v4 w4 v5 w5 v6 w6
    where "checkRamUsage env w = (Inr v1, w1)" and "checkCpuUsage env w1 = (Inr v2, w2)"
      and "checkDiskUsage env w2 = (Inr v3, w3)" and "checkSwapUsage env w3 = (Inr v4, w4)"
      and "checkLoadAverage env w4 = (Inr v5, w5)" and "checkNetworkUsage env w5 = (Inr v6, w6)"
      and c: "collectMetrics env w
         = (Inr \<lparr>ram = Some v1, cpu = Some v2, disk = Some v3, swap = Some v4,
                 load = Some v5, network = Some v6\<rparr>, w6)"
    by (rule collectMetrics_run)
  let ?m = "\<lparr>ram = Some v1, cpu = Some v2, disk = Some v3, swap = Some v4,
                 load = Some v5, network = Some v6\<rparr>"
  have n: "network ?m \<noteq> None" by simp
  obtain wa wb where "tick env w = (Inr (), wb)"
    using tick_parts[OF c n] by blast
  then have t: "\<not> isl (fst (tick env w))" by simp
  note s = tick_sinks[OF c n]
  note d = tick_dispatched[OF c n]
  have "\<exists>mt w1. collectMetrics env w = (Inr mt, w1) \<and> \<not> isl (fst (tick env w))
         \<and> (db env \<and> database_enabled (cfg env)
              \<longrightarrow> (\<exists>r. DbStoreMetrics r \<in> set (added (tick env) w)
                       \<and> m_ram_usage r = or_zero (ram mt)))
         \<and> (prometheus env \<and> prometheus_enabled (cfg env)
              \<longrightarrow> GaugeSet Gauge_ramUsage (or_zero (ram mt)) \<in> set (added (tick env) w))
         \<and> WriteStatus (statusContent env mt) \<in> set (added (tick env) w)
         \<and> dispatched (added (tick env) w) = breaches (cfg env) mt"
    using c t s d by (intro exI[of _ ?m] exI[of _ w6]) (elim conjE, intro conjI)
  with r l1 l2 l3 show ?thesis by (intro conjI)
qed


theorem sinks_isolated_witness:
  "db failing_sinks_env \<and> database_enabled (cfg failing_sinks_env)
   \<and> db_storeMetrics failing_sinks_env = Some (Error ''database is locked'')
   \<and> prometheus failing_sinks_env \<and> prometheus_enabled (cfg failing_sinks_env)
   \<and> gauge_set failing_sinks_env Gauge_ramUsage = Some (Error ''registry'')
   \<and> fs_writeFileSync failing_sinks_env = Some (Error ''no space left on device'')
   \<and> Log LError (FailedStoreMetrics ''database is locked'')
        \<in> set (added (storeMetrics failing_sinks_env
                        \<lparr>ram = Some (Num 85), cpu = Some (Num 10), disk = Some (Num 40),
                         swap = Some (Num 0), load = Some (Num 50),
                         network = Some (Num 0, Num 0)\<rparr> sample_system_info) start)
   \<and> Log LError (ErrorStatusFile ''no space left on device'')
        \<in> set (added (updateStatusFile failing_sinks_env
                        \<lparr>ram = Some (Num 85), cpu = Some (Num 10), disk = Some (Num 40),
                         swap = Some (Num 0), load = Some (Num 50),
                         network = Some (Num 0, Num 0)\<rparr>) start)
   \<and> \<not> isl (fst (tick failing_sinks_env start))
   \<and> (\<exists>r. DbStoreMetrics r \<in> set (added (tick failing_sinks_env) start)
            \<and> m_ram_usage r = Num 85)
   \<and> GaugeSet Gauge_ramUsage (Num 85) \<in> set (added (tick failing_sinks_env) start)
   \<and> WriteStatus (statusContent failing_sinks_env
                     \<lparr>ram = Some (Num 85), cpu = Some (Num 10), disk = Some (Num 40),
                      swap = Some (Num 0), load = Some (Num 50),
                      network = Some (Num 0, Num 0)\<rparr>)
        \<in> set (added (tick failing_sinks_env) start)
   \<and> dispatched (added (tick failing_sinks_env) start) = [RAM]"
proof -
  let ?m = "\<lparr>ram = Some (Num 85), cpu = Some (Num 10), disk = Some (Num 40),
             swap = Some (Num 0), load = Some (Num 50), network = Some (Num 0, Num 0)\<rparr>"
  have h: "db failing_sinks_env" "database_enabled (cfg failing_sinks_env)"
    "db_storeMetrics failing_sinks_env = Some (Error ''database is locked'')"
    "prometheus failing_sinks_env" "prometheus_enabled (cfg failing_sinks_env)"
    "gauge_set failing_sinks_env Gauge_ramUsage = Some (Error ''registry'')"
    "fs_writeFileSync failing_sinks_env = Some (Error ''no space left on device'')"
    by (simp_all add: failing_sinks_env_def sample_env_def sample_config_def)
  have cf: "cfg failing_sinks_env = sample_config"
    by (simp add: failing_sinks_env_def sample_env_def)
  have c: "collectMetrics failing_sinks_env start = (Inr ?m, start\<lparr>trace := [Sleep 1000]\<rparr>)"
    by (simp add: reader_defs prog_defs failing_sinks_env_def sample_env_def sample_config_def
        start_def Math_round_numeral Math_round_zero del: Math_round.simps)
  note T = sinks_isolated[where env = failing_sinks_env and w = start and m = ?m
      and si = sample_system_info and ?e1.0 = "Error ''database is locked''"
      and g = Gauge_ramUsage and ?e2.0 = "Error ''registry''"
      and ?e3.0 = "Error ''no space left on device''"]
  from T have "db failing_sinks_env \<and> database_enabled (cfg failing_sinks_env)
       \<and> db_storeMetrics failing_sinks_env = Some (Error ''database is locked'')
       \<longrightarrow> Log LError (FailedStoreMetrics (message (Error ''database is locked'')))
            \<in> set (added (storeMetrics failing_sinks_env ?m sample_system_info) start)"
    by (elim conjE)
  with h have 1: "Log LError (FailedStoreMetrics ''database is locked'')
            \<in> set (added (storeMetrics failing_sinks_env ?m sample_system_info) start)"
    by simp
  from T have "fs_writeFileSync failing_sinks_env = Some (Error ''no space left on device'')
       \<longrightarrow> Log LError (ErrorStatusFile (message (Error ''no space left on device'')))
            \<in> set (added (updateStatusFile failing_sinks_env ?m) start)"
    by (elim conjE)
  with h have 2: "Log LError (ErrorStatusFile ''no space left on device'')
            \<in> set (added (updateStatusFile failing_sinks_env ?m) start)"
    by simp
  from T have 3: "\<not> isl (fst (tick failing_sinks_env start))
   \<and> (\<exists>r. DbStoreMetrics r \<in> set (added (tick failing_sinks_env) start)
            \<and> m_ram_usage r = Num 85)
   \<and> GaugeSet Gauge_ramUsage (Num 85) \<in> set (added (tick failing_sinks_env) start)
   \<and> WriteStatus (statusContent failing_sinks_env ?m)
        \<in> set (added (tick failing_sinks_env) start)
   \<and> dispatched (added (tick failing_sinks_env) start) = [RAM]"
  proof (elim conjE exE)
    fix mt w1
    assume a: "collectMetrics failing_sinks_env start = (Inr mt, w1)"
      and b: "\<not> isl (fst (tick failing_sinks_env start))"
      and s: "db failing_sinks_env \<and> database_enabled (cfg failing_sinks_env)
              \<longrightarrow> (\<exists>r. DbStoreMetrics r \<in> set (added (tick failing_sinks_env) start)
                       \<and> m_ram_usage r = or_zero (ram mt))"
      and g: "prometheus failing_sinks_env \<and> prometheus_enabled (cfg failing_sinks_env)
              \<longrightarrow> GaugeSet Gauge_ramUsage (or_zero (ram mt)) \<in> set (added (tick failing_sinks_env) start)"
      and f: "WriteStatus (statusContent failing_sinks_env mt) \<in> set (added (tick failing_sinks_env) start)"
      and d: "dispatched (added (tick failing_sinks_env) start) = breaches (cfg failing_sinks_env) mt"
    from a have m: "mt = ?m" by (simp add: c)
    have o: "or_zero (ram ?m) = Num 85" by simp
    have bm: "breaches (cfg failing_sinks_env) ?m = [RAM]"
      by (simp add: cf breaches_def sample_config_def)
    from s h(1,2) have s': "\<exists>r. DbStoreMetrics r \<in> set (added (tick failing_sinks_env) start)
                       \<and> m_ram_usage r = Num 85"
      unfolding m o by simp
    from g h(4,5) have g': "GaugeSet Gauge_ramUsage (Num 85) \<in> set (added (tick failing_sinks_env) start)"
      unfolding m o by simp
    from b s' g' f d show ?thesis unfolding m bm by (intro conjI)
  qed
  from h 1 2 3 show ?thesis by (intro conjI) (elim conjE, assumption)+
qed

subsection \<open>One delivery attempt\<close>

lemma storeAlert_run:
  "storeAlert env k u m b w
   = (Inr (db env \<and> database_enabled (cfg env) \<and> db_storeAlert env k = None),
      w\<lparr>trace := trace w @ storeAlertEvents env k u m b\<rparr>)"
  by (auto simp: storeAlert_def storeAlertEvents_def prog_defs Let_def split: option.splits)

lemma sendAttempt_failed:
  assumes "bot_sendMessage env k (retry f) = Some e"
  shows "sendAttempt env k u m t f
         = (Inr (), f\<lparr>trace := trace f @ failedEvents k m (retry f) e, retry := Suc (retry f)\<rparr>)"
  using assms
  by (simp add: sendAttempt_def sendAttemptTry_def sendAttemptCatch_def failedEvents_def prog_defs)

lemma sendAttempt_sent:
  assumes "bot_sendMessage env k (retry f) = None"
  shows "sendAttempt env k u m t f
         = (Inr (), f\<lparr>lastAlertTimes := (lastAlertTimes f)(k := t),
                      trace := trace f @ sentEvents env k u m (retry f),
                      retry := (if counterFails env k then Suc (retry f) else retry f),
                      success := True\<rparr>)"
  using assms
  by (auto simp: sendAttempt_def sendAttemptTry_def sendAttemptCatch_def sentEvents_def
      counterFails_def storeAlert_run storeAlertEvents_def prog_defs split: option.splits)


subsection \<open>The retry loop\<close>

lemma sendLoop_sent:
  assumes "\<not> success f" and "retry f < maxRetries" and "bot_sendMessage env k (retry f) = None"
  shows "sendLoop env k u m t f
         = (Inr (), f\<lparr>lastAlertTimes := (lastAlertTimes f)(k := t),
                      trace := trace f @ sentEvents env k u m (retry f),
                      retry := (if counterFails env k then Suc (retry f) else retry f),
                      success := True\<rparr>)"
proof -
  let ?f' = "f\<lparr>lastAlertTimes := (lastAlertTimes f)(k := t),
                      trace := trace f @ sentEvents env k u m (retry f),
                      retry := (if counterFails env k then Suc (retry f) else retry f),
                      success := True\<rparr>"
  have "sendLoop env k u m t f = sendLoop env k u m t ?f'"
    by (rule sendLoop_step[OF assms(2,1) sendAttempt_sent[OF assms(3)]])
  also have "\<dots> = (Inr (), ?f')"
    by (rule sendLoop_done) simp
  finally show ?thesis .
qed

lemma sendLoop_failed:
  assumes "\<not> success f" and "retry f < maxRetries" and "bot_sendMessage env k (retry f) = Some e"
  shows "sendLoop env k u m t f
         = sendLoop env k u m t
             (f\<lparr>trace := trace f @ failedEvents k m (retry f) e, retry := Suc (retry f)\<rparr>)"
  by (rule sendLoop_step[OF assms(2,1) sendAttempt_failed[OF assms(3)]])

lemma sendLoop_run:
  "\<exists>r. sendLoop env k u m t \<lparr>lastAlertTimes = L, trace = T, retry = 0, success = False\<rparr>
       = (Inr (), \<lparr>lastAlertTimes = (if loopSucceeds env k then L(k := t) else L),
                   trace = T @ loopEvents env k u m, retry = r,
                   success = loopSucceeds env k\<rparr>)"
proof (cases "bot_sendMessage env k 0")
  case None
  then show ?thesis
    by (simp add: sendLoop_sent maxRetries_def loopEvents_def loopSucceeds_def)
next
  case s0: (Some e0)
  show ?thesis
  proof (cases "bot_sendMessage env k 1")
    case None
    with s0 show ?thesis
      by (simp add: sendLoop_failed sendLoop_sent maxRetries_def loopEvents_def loopSucceeds_def
          numeral_2_eq_2 numeral_3_eq_3)
  next
    case s1: (Some e1)
    show ?thesis
    proof (cases "bot_sendMessage env k 2")
      case None
      with s0 s1 show ?thesis
        by (simp add: sendLoop_failed sendLoop_sent maxRetries_def loopEvents_def loopSucceeds_def
          numeral_2_eq_2 numeral_3_eq_3)
    next
      case s2: (Some e2)
      with s0 s1 show ?thesis
        by (simp add: sendLoop_failed sendLoop_done maxRetries_def loopEvents_def loopSucceeds_def
          numeral_2_eq_2 numeral_3_eq_3)
    qed
  qed
qed


subsection \<open>A dispatch, computed from the environment\<close>

lemma afterLoop_run:
  "afterLoop env k u m f
   = (if \<not> success f
      then (Inr False,
            f\<lparr>trace := trace f @ [Log LError (FailedToSend maxRetries), Log LError BotTokenHint,
                                   Log LError ChatId] @ storeAlertEvents env k u m False\<rparr>)
      else (Inr True, f))"
  by (auto simp: afterLoop_def storeAlert_run storeAlertEvents_def prog_defs)

lemma deliver_run:
  "deliver env k u t w
   = (Inr (deliverSucceeds env k),
      w\<lparr>lastAlertTimes := (if deliverSucceeds env k then (lastAlertTimes w)(k := t)
                             else lastAlertTimes w),
        trace := trace w @ deliverEvents env k u\<rparr>)"
proof (cases "formatAlert env k")
  case (Inl e)
  then show ?thesis
    by (simp add: deliver_def deliverEvents_def deliverSucceeds_def prog_defs)
next
  case (Inr m)
  let ?T = "trace w @ [FormatAlert k u, Log LInfo Separator, Log LInfo (AlertText m)]"
  from sendLoop_run[of env k u m t "lastAlertTimes w" ?T] obtain r
    where l: "sendLoop env k u m t
                \<lparr>lastAlertTimes = lastAlertTimes w, trace = ?T, retry = 0, success = False\<rparr>
       = (Inr (), \<lparr>lastAlertTimes = (if loopSucceeds env k then (lastAlertTimes w)(k := t)
                                      else lastAlertTimes w),
                   trace = ?T @ loopEvents env k u m, retry = r,
                   success = loopSucceeds env k\<rparr>)"
    by blast
  show ?thesis
    using Inr
    by (simp add: deliver_def deliverEvents_def deliverSucceeds_def with_locals_def l
        afterLoop_run bind_def try_catch_def emit_def logger_def await_def)
qed

lemma sendTelegramAlert_run:
  "sendTelegramAlert env k u w
   = (if dateNow env k div 1000 - lastAlertTimes w k < monitoring_checkInterval (cfg env) * 10
      then (Inr False,
            w\<lparr>trace := trace w @ [Dispatch k u,
                 Log LDebug (AlertRateLimited k (dateNow env k div 1000 - lastAlertTimes w k))]\<rparr>)
      else (Inr (deliverSucceeds env k),
            w\<lparr>lastAlertTimes := (if deliverSucceeds env k
                                   then (lastAlertTimes w)(k := dateNow env k div 1000)
                                   else lastAlertTimes w),
              trace := trace w @ Dispatch k u # deliverEvents env k u\<rparr>))"
  by (simp add: sendTelegramAlert_def rateLimit_def deliver_run Let_def bind_def emit_def
      modify_def logger_def ret_def fun_upd_idem)


lemma dispatch_added:
  "added (sendTelegramAlert env k u) w
   = (if dateNow env k div 1000 - lastAlertTimes w k < monitoring_checkInterval (cfg env) * 10
      then [Dispatch k u,
            Log LDebug (AlertRateLimited k (dateNow env k div 1000 - lastAlertTimes w k))]
      else Dispatch k u # deliverEvents env k u)"
  by (rule added_eqI) (simp add: sendTelegramAlert_run)

lemma dispatch_result:
  "fst (sendTelegramAlert env k u w)
   = Inr (\<not> dateNow env k div 1000 - lastAlertTimes w k < monitoring_checkInterval (cfg env) * 10
          \<and> deliverSucceeds env k)"
  by (simp add: sendTelegramAlert_run)

lemma dispatch_lastAlertTimes:
  "lastAlertTimes (snd (sendTelegramAlert env k u w))
   = (if \<not> dateNow env k div 1000 - lastAlertTimes w k < monitoring_checkInterval (cfg env) * 10
         \<and> deliverSucceeds env k
      then (lastAlertTimes w)(k := dateNow env k div 1000) else lastAlertTimes w)"
  by (simp add: sendTelegramAlert_run)

lemma sends_storeAlertEvents [simp]: "filter is_send (storeAlertEvents env k u m b) = []"
  by (simp add: storeAlertEvents_def split: option.splits)

lemma sends_failedEvents [simp]: "filter is_send (failedEvents k m r e) = [BotSend m]"
  by (simp add: failedEvents_def)

lemma sends_sentEvents [simp]: "filter is_send (sentEvents env k u m r) = [BotSend m]"
  by (simp add: sentEvents_def split: option.splits)

lemma deliveries_storeAlertEvents [simp]: "filter is_delivery (storeAlertEvents env k u m b) = []"
  by (simp add: storeAlertEvents_def split: option.splits)

lemma deliveries_failedEvents [simp]:
  "filter is_delivery (failedEvents k m r e) = [BotSend m, Sleep 2000]"
  by (simp add: failedEvents_def)

lemma deliveries_sentEvents [simp]:
  "filter is_delivery (sentEvents env k u m r)
   = BotSend m # (if counterFails env k then [Sleep 2000] else [])"
  by (auto simp: sentEvents_def counterFails_def split: option.splits)

lemma records_failedEvents [simp]: "filter is_alert_record (failedEvents k m r e) = []"
  by (simp add: failedEvents_def)

lemma records_storeAlertEvents:
  "filter is_alert_record (storeAlertEvents env k u m b)
   = (if db env \<and> database_enabled (cfg env)
      then [DbStoreAlert
              \<lparr>a_timestamp = isoTimestamp env (AtStoreAlert k),
               a_hostname = hostname (getSystemInfo env (AtStoreAlert k)),
               a_alert_type = k, a_value = u, a_message = m, a_sent_successfully = b\<rparr>]
      else [])"
  by (auto simp: storeAlertEvents_def split: option.splits)

lemma sends_loopEvents:
  "filter is_send (loopEvents env k u m)
   = replicate (if bot_sendMessage env k 0 = None then 1
                else if bot_sendMessage env k 1 = None then 2 else 3) (BotSend m)"
  by (simp add: loopEvents_def numeral_2_eq_2 numeral_3_eq_3 split: option.splits)

lemma deliveries_loopEvents:
  "\<exists>n. filter is_delivery (loopEvents env k u m)
        = take n [BotSend m, Sleep 2000, BotSend m, Sleep 2000, BotSend m, Sleep 2000]"
proof (cases "bot_sendMessage env k 0")
  case None
  then show ?thesis
    by (cases "counterFails env k")
      (auto simp: loopEvents_def intro: exI[of _ 1] exI[of _ 2])
next
  case s0: (Some e0)
  show ?thesis
  proof (cases "bot_sendMessage env k 1")
    case None
    with s0 show ?thesis
      by (cases "counterFails env k")
        (auto simp: loopEvents_def intro: exI[of _ 3] exI[of _ 4])
  next
    case s1: (Some e1)
    show ?thesis
    proof (cases "bot_sendMessage env k 2")
      case None
      with s0 s1 show ?thesis
        by (cases "counterFails env k")
          (auto simp: loopEvents_def intro: exI[of _ 5] exI[of _ 6])
    next
      case (Some e2)
      with s0 s1 show ?thesis
        by (auto simp: loopEvents_def intro: exI[of _ 6])
    qed
  qed
qed


lemma format_deliverEvents: "FormatAlert k u \<in> set (deliverEvents env k u)"
  by (simp add: deliverEvents_def split: sum.splits)

lemma sends_deliverEvents:
  "filter is_send (deliverEvents env k u)
   = (case formatAlert env k of
        Inl e \<Rightarrow> []
      | Inr m \<Rightarrow> replicate (if bot_sendMessage env k 0 = None then 1
                            else if bot_sendMessage env k 1 = None then 2 else 3) (BotSend m))"
  by (simp add: deliverEvents_def sends_loopEvents split: sum.splits)

lemma deliveries_deliverEvents:
  "\<exists>n m. filter is_delivery (deliverEvents env k u)
          = take n [BotSend m, Sleep 2000, BotSend m, Sleep 2000, BotSend m, Sleep 2000]"
proof (cases "formatAlert env k")
  case (Inl e)
  then have "filter is_delivery (deliverEvents env k u) = take 0 [BotSend [], Sleep 2000]"
    by (simp add: deliverEvents_def)
  then show ?thesis
    by (intro exI[of _ 0]) simp
next
  case (Inr m)
  obtain n where "filter is_delivery (loopEvents env k u m)
      = take n [BotSend m, Sleep 2000, BotSend m, Sleep 2000, BotSend m, Sleep 2000]"
    using deliveries_loopEvents by blast
  with Inr have "filter is_delivery (deliverEvents env k u)
      = take n [BotSend m, Sleep 2000, BotSend m, Sleep 2000, BotSend m, Sleep 2000]"
    by (simp add: deliverEvents_def)
  then show ?thesis
    by blast
qed

lemma records_deliverEvents_failed:
  assumes "formatAlert env k = Inr m"
    and "bot_sendMessage env k 0 \<noteq> None" "bot_sendMessage env k 1 \<noteq> None"
      "bot_sendMessage env k 2 \<noteq> None"
  shows "filter is_alert_record (deliverEvents env k u)
         = filter is_alert_record (storeAlertEvents env k u m False)"
  using assms by (auto simp: deliverEvents_def loopEvents_def loopSucceeds_def)

text \<open>
  C2, as claimed, fails. With a check interval of 60 seconds the clock reads
  1735689600900 ms at a first RAM dispatch, which is sent, and 1735690200400 ms at the
  second, 599.5 seconds later. The limiter compares whole seconds, 1735690200 - 1735689600 =
  600, so the second dispatch is not suppressed: it returns \<open>true\<close> and offers the message.
\<close>

theorem cooldown_jitter_counterexample:
  "monitoring_checkInterval (cfg jitter_first_env) = 60
   \<and> monitoring_checkInterval (cfg jitter_second_env) = 60
   \<and> dateNow jitter_second_env RAM - dateNow jitter_first_env RAM = 599500
   \<and> fst (sendTelegramAlert jitter_first_env RAM (Percent (Num 85)) start) = Inr True
   \<and> fst (sendTelegramAlert jitter_second_env RAM (Percent (Num 90))
           (snd (sendTelegramAlert jitter_first_env RAM (Percent (Num 85)) start))) = Inr True
   \<and> filter is_send (added (sendTelegramAlert jitter_second_env RAM (Percent (Num 90)))
           (snd (sendTelegramAlert jitter_first_env RAM (Percent (Num 85)) start)))
     = [BotSend ''alert'']"
proof -
  let ?w1 = "snd (sendTelegramAlert jitter_first_env RAM (Percent (Num 85)) start)"
  have c: "monitoring_checkInterval (cfg jitter_first_env) = 60"
    "monitoring_checkInterval (cfg jitter_second_env) = 60"
    "dateNow jitter_first_env RAM = 1735689600900" "dateNow jitter_second_env RAM = 1735690200400"
    "formatAlert jitter_second_env RAM = Inr ''alert''"
    "bot_sendMessage jitter_second_env RAM 0 = None"
    by (simp_all add: jitter_first_env_def jitter_second_env_def sample_env_def sample_config_def)
  have s: "deliverSucceeds jitter_first_env RAM" "deliverSucceeds jitter_second_env RAM"
    by (simp_all add: deliverSucceeds_def loopSucceeds_def jitter_first_env_def
        jitter_second_env_def sample_env_def)
  have z: "lastAlertTimes start RAM = 0"
    by (simp add: start_def)
  have r1: "fst (sendTelegramAlert jitter_first_env RAM (Percent (Num 85)) start) = Inr True"
    by (simp add: dispatch_result c s z)
  have l1: "lastAlertTimes ?w1 RAM = 1735689600"
    by (simp add: dispatch_lastAlertTimes c s z)
  have p2: "\<not> dateNow jitter_second_env RAM div 1000 - lastAlertTimes ?w1 RAM
              < monitoring_checkInterval (cfg jitter_second_env) * 10"
    by (simp add: l1 c)
  have r2: "fst (sendTelegramAlert jitter_second_env RAM (Percent (Num 90)) ?w1) = Inr True"
    using p2 by (simp add: dispatch_result s)
  have a2: "filter is_send (added (sendTelegramAlert jitter_second_env RAM (Percent (Num 90))) ?w1)
     = [BotSend ''alert'']"
    using p2 by (simp add: dispatch_added sends_deliverEvents c)
  from c(1,2) r1 r2 a2 show ?thesis
    by (simp add: c)
qed

text \<open>
  C2, amended. The rate limiter lets a dispatch proceed, that is reach the formatting of the
  message, exactly when the time sampled at its start, in whole seconds (\<open>Date.now() / 1000\<close>
  rounded down), minus the recorded time of the last successful send of the kind is at least
  \<open>checkInterval * 10\<close>, and a message is offered to the transport exactly when moreover the
  message could be formatted. A suppressed dispatch returns \<open>false\<close>, only writes the debug
  line and leaves \<open>lastAlertTimes\<close> as it was. With a check interval of 60 seconds, after a
  dispatch that returned \<open>true\<close> a dispatch of the same kind whose time in whole seconds is
  less than 600 after that of the first is suppressed: it returns \<open>false\<close> and offers no
  message.
\<close>

theorem rate_limiter:
  fixes w w2 :: world
  shows
    "(FormatAlert k u \<in> set (added (sendTelegramAlert env k u) w)
        \<longleftrightarrow> monitoring_checkInterval (cfg env) * 10
              \<le> dateNow env k div 1000 - lastAlertTimes w k)
     \<and> (filter is_send (added (sendTelegramAlert env k u) w) \<noteq> []
        \<longleftrightarrow> monitoring_checkInterval (cfg env) * 10
              \<le> dateNow env k div 1000 - lastAlertTimes w k
            \<and> \<not> isl (formatAlert env k))
     \<and> (dateNow env k div 1000 - lastAlertTimes w k < monitoring_checkInterval (cfg env) * 10
        \<longrightarrow> fst (sendTelegramAlert env k u w) = Inr False
            \<and> lastAlertTimes (snd (sendTelegramAlert env k u w)) = lastAlertTimes w
            \<and> added (sendTelegramAlert env k u) w
              = [Dispatch k u,
                 Log LDebug (AlertRateLimited k (dateNow env k div 1000 - lastAlertTimes w k))])
     \<and> (monitoring_checkInterval (cfg env) = 60 \<and> monitoring_checkInterval (cfg env2) = 60
        \<and> fst (sendTelegramAlert env k u w) = Inr True
        \<and> lastAlertTimes w2 k = lastAlertTimes (snd (sendTelegramAlert env k u w)) k
        \<and> dateNow env2 k div 1000 - dateNow env k div 1000 < 600
        \<longrightarrow> fst (sendTelegramAlert env2 k u2 w2) = Inr False
            \<and> filter is_send (added (sendTelegramAlert env2 k u2) w2) = [])"
proof (intro conjI impI)
  show "FormatAlert k u \<in> set (added (sendTelegramAlert env k u) w)
        \<longleftrightarrow> monitoring_checkInterval (cfg env) * 10
              \<le> dateNow env k div 1000 - lastAlertTimes w k"
    by (auto simp: dispatch_added format_deliverEvents)
  show "filter is_send (added (sendTelegramAlert env k u) w) \<noteq> []
        \<longleftrightarrow> monitoring_checkInterval (cfg env) * 10
              \<le> dateNow env k div 1000 - lastAlertTimes w k
            \<and> \<not> isl (formatAlert env k)"
    by (auto simp: dispatch_added sends_deliverEvents split: sum.splits)
next
  assume "dateNow env k div 1000 - lastAlertTimes w k < monitoring_checkInterval (cfg env) * 10"
  then show "fst (sendTelegramAlert env k u w) = Inr False"
    and "lastAlertTimes (snd (sendTelegramAlert env k u w)) = lastAlertTimes w"
    and "added (sendTelegramAlert env k u) w
         = [Dispatch k u,
            Log LDebug (AlertRateLimited k (dateNow env k div 1000 - lastAlertTimes w k))]"
    by (simp_all add: dispatch_result dispatch_lastAlertTimes dispatch_added)
next
  assume a: "monitoring_checkInterval (cfg env) = 60 \<and> monitoring_checkInterval (cfg env2) = 60
        \<and> fst (sendTelegramAlert env k u w) = Inr True
        \<and> lastAlertTimes w2 k = lastAlertTimes (snd (sendTelegramAlert env k u w)) k
        \<and> dateNow env2 k div 1000 - dateNow env k div 1000 < 600"
  then have "lastAlertTimes (snd (sendTelegramAlert env k u w)) k = dateNow env k div 1000"
    by (simp add: dispatch_result dispatch_lastAlertTimes)
  with a have limited:
    "dateNow env2 k div 1000 - lastAlertTimes w2 k < monitoring_checkInterval (cfg env2) * 10"
    by simp
  then show "fst (sendTelegramAlert env2 k u2 w2) = Inr False"
    by (simp add: dispatch_result)
  from limited show "filter is_send (added (sendTelegramAlert env2 k u2) w2) = []"
    by (simp add: dispatch_added)
qed

lemma sample_first_dispatch:
  "fst (sendTelegramAlert sample_env RAM (Percent (Num 85)) start) = Inr True"
  by (simp add: dispatch_result deliverSucceeds_def loopSucceeds_def sample_env_def
      sample_config_def start_def)

theorem rate_limiter_witness:
  "monitoring_checkInterval (cfg sample_env) = 60
   \<and> fst (sendTelegramAlert sample_env RAM (Percent (Num 85)) start) = Inr True
   \<and> dateNow later_env RAM div 1000 - dateNow sample_env RAM div 1000 = 599
   \<and> fst (sendTelegramAlert later_env RAM (Percent (Num 90))
           (snd (sendTelegramAlert sample_env RAM (Percent (Num 85)) start))) = Inr False
   \<and> filter is_send (added (sendTelegramAlert later_env RAM (Percent (Num 90)))
           (snd (sendTelegramAlert sample_env RAM (Percent (Num 85)) start))) = []"
proof -
  let ?w1 = "snd (sendTelegramAlert sample_env RAM (Percent (Num 85)) start)"
  have c: "monitoring_checkInterval (cfg sample_env) = 60"
    "monitoring_checkInterval (cfg later_env) = 60"
    by (simp_all add: later_env_def sample_env_def sample_config_def)
  have d: "dateNow later_env RAM div 1000 - dateNow sample_env RAM div 1000 = 599"
    by (simp add: later_env_def sample_env_def)
  from rate_limiter[where env = sample_env and ?env2.0 = later_env and k = RAM
      and u = "Percent (Num 85)" and ?u2.0 = "Percent (Num 90)" and w = start and ?w2.0 = ?w1]
  have "monitoring_checkInterval (cfg sample_env) = 60
        \<and> monitoring_checkInterval (cfg later_env) = 60
        \<and> fst (sendTelegramAlert sample_env RAM (Percent (Num 85)) start) = Inr True
        \<and> lastAlertTimes ?w1 RAM = lastAlertTimes ?w1 RAM
        \<and> dateNow later_env RAM div 1000 - dateNow sample_env RAM div 1000 < 600
        \<longrightarrow> fst (sendTelegramAlert later_env RAM (Percent (Num 90)) ?w1) = Inr False
            \<and> filter is_send (added (sendTelegramAlert later_env RAM (Percent (Num 90))) ?w1) = []"
    by (elim conjE)
  with c d sample_first_dispatch show ?thesis
    by simp
qed


lemma outage_no_db_passes:
  "\<not> dateNow outage_no_db_env RAM div 1000 - lastAlertTimes start RAM
       < monitoring_checkInterval (cfg outage_no_db_env) * 10"
  by (simp add: outage_no_db_env_def sample_env_def sample_config_def start_def)

text \<open>
  C3, as claimed, fails. With persistence switched off (no database handle,
  \<open>database.enabled\<close> false) a dispatch passes the rate limiter, offers the message three
  times, is refused three times and returns \<open>false\<close>, yet no alert record is offered: the
  call of \<open>storeAlert\<close> is guarded by \<open>db && config.get('database.enabled')\<close>.
\<close>

theorem failed_record_counterexample:
  "filter is_send (added (sendTelegramAlert outage_no_db_env RAM (Percent (Num 85))) start)
     = [BotSend ''alert'', BotSend ''alert'', BotSend ''alert'']
   \<and> bot_sendMessage outage_no_db_env RAM 0 \<noteq> None
   \<and> bot_sendMessage outage_no_db_env RAM 1 \<noteq> None
   \<and> bot_sendMessage outage_no_db_env RAM 2 \<noteq> None
   \<and> fst (sendTelegramAlert outage_no_db_env RAM (Percent (Num 85)) start) = Inr False
   \<and> filter is_alert_record
        (added (sendTelegramAlert outage_no_db_env RAM (Percent (Num 85))) start) = []"
proof -
  have f: "formatAlert outage_no_db_env RAM = Inr ''alert''"
    and b: "\<And>n. bot_sendMessage outage_no_db_env RAM n = Some (Error ''ETELEGRAM'')"
    and d: "\<not> (db outage_no_db_env \<and> database_enabled (cfg outage_no_db_env))"
    by (simp_all add: outage_no_db_env_def sample_env_def)
  have "filter is_send (added (sendTelegramAlert outage_no_db_env RAM (Percent (Num 85))) start)
        = [BotSend ''alert'', BotSend ''alert'', BotSend ''alert'']"
    using outage_no_db_passes
    by (simp add: dispatch_added sends_deliverEvents f b numeral_3_eq_3)
  moreover have "fst (sendTelegramAlert outage_no_db_env RAM (Percent (Num 85)) start) = Inr False"
    by (simp add: dispatch_result deliverSucceeds_def loopSucceeds_def b)
  moreover have "filter is_alert_record
        (added (sendTelegramAlert outage_no_db_env RAM (Percent (Num 85))) start) = []"
    using outage_no_db_passes d
    by (simp add: dispatch_added records_deliverEvents_failed[OF f] b records_storeAlertEvents)
  ultimately show ?thesis
    using b by simp
qed

text \<open>
  C3, amended. For every dispatch that passes the rate limiter, whose message is formatted
  and whose three delivery attempts all fail: the message was offered exactly three times,
  the dispatch returns \<open>false\<close> and leaves \<open>lastAlertTimes\<close> unchanged; when persistence is
  enabled (database handle present and \<open>database.enabled\<close> true) exactly one alert record, with
  \<open>sent_successfully\<close> false, is offered to the store, and none is offered otherwise; and a
  dispatch of the same kind at any later time, under the same check interval, passes the rate
  limiter again.
\<close>

theorem failed_dispatch:
  fixes w :: world
  assumes "monitoring_checkInterval (cfg env) * 10 \<le> dateNow env k div 1000 - lastAlertTimes w k"
    and "formatAlert env k = Inr m"
    and "\<forall>i<3. bot_sendMessage env k i \<noteq> None"
  shows "filter is_send (added (sendTelegramAlert env k u) w) = [BotSend m, BotSend m, BotSend m]
     \<and> fst (sendTelegramAlert env k u w) = Inr False
     \<and> lastAlertTimes (snd (sendTelegramAlert env k u w)) = lastAlertTimes w
     \<and> filter is_alert_record (added (sendTelegramAlert env k u) w)
       = (if db env \<and> database_enabled (cfg env)
          then [DbStoreAlert
                  \<lparr>a_timestamp = isoTimestamp env (AtStoreAlert k),
                   a_hostname = hostname (getSystemInfo env (AtStoreAlert k)),
                   a_alert_type = k, a_value = u, a_message = m,
                   a_sent_successfully = False\<rparr>]
          else [])
     \<and> (monitoring_checkInterval (cfg env') = monitoring_checkInterval (cfg env)
        \<and> dateNow env k \<le> dateNow env' k
        \<longrightarrow> FormatAlert k u' \<in> set (added (sendTelegramAlert env' k u')
                                        (snd (sendTelegramAlert env k u w))))"
proof -
  from assms(3) have b: "bot_sendMessage env k 0 \<noteq> None" "bot_sendMessage env k 1 \<noteq> None"
    "bot_sendMessage env k 2 \<noteq> None"
    by simp_all
  from assms(1) have p:
    "\<not> dateNow env k div 1000 - lastAlertTimes w k < monitoring_checkInterval (cfg env) * 10"
    by simp
  have s: "filter is_send (added (sendTelegramAlert env k u) w) = [BotSend m, BotSend m, BotSend m]"
    using p b by (auto simp: dispatch_added sends_deliverEvents assms(2) numeral_3_eq_3)
  have r: "fst (sendTelegramAlert env k u w) = Inr False"
    using b by (auto simp: dispatch_result deliverSucceeds_def loopSucceeds_def)
  have l: "lastAlertTimes (snd (sendTelegramAlert env k u w)) = lastAlertTimes w"
    using b by (auto simp: dispatch_lastAlertTimes deliverSucceeds_def loopSucceeds_def)
  have a: "filter is_alert_record (added (sendTelegramAlert env k u) w)
       = (if db env \<and> database_enabled (cfg env)
          then [DbStoreAlert
                  \<lparr>a_timestamp = isoTimestamp env (AtStoreAlert k),
                   a_hostname = hostname (getSystemInfo env (AtStoreAlert k)),
                   a_alert_type = k, a_value = u, a_message = m,
                   a_sent_successfully = False\<rparr>]
          else [])"
    using p by (simp add: dispatch_added records_deliverEvents_failed[OF assms(2) b]
        records_storeAlertEvents)
  have n: "FormatAlert k u' \<in> set (added (sendTelegramAlert env' k u')
                                        (snd (sendTelegramAlert env k u w)))"
    if "monitoring_checkInterval (cfg env') = monitoring_checkInterval (cfg env)
        \<and> dateNow env k \<le> dateNow env' k"
  proof -
    from that have "dateNow env k div 1000 \<le> dateNow env' k div 1000"
      by (simp add: zdiv_mono1)
    with that p l
    have "\<not> dateNow env' k div 1000 - lastAlertTimes (snd (sendTelegramAlert env k u w)) k
            < monitoring_checkInterval (cfg env') * 10"
      by simp
    then show ?thesis
      by (simp add: dispatch_added format_deliverEvents)
  qed
  from s r l a n show ?thesis
    by blast
qed

theorem failed_dispatch_witness:
  "monitoring_checkInterval (cfg outage_env) * 10
     \<le> dateNow outage_env RAM div 1000 - lastAlertTimes start RAM
   \<and> formatAlert outage_env RAM = Inr ''alert''
   \<and> bot_sendMessage outage_env RAM 0 \<noteq> None
   \<and> bot_sendMessage outage_env RAM 1 \<noteq> None
   \<and> bot_sendMessage outage_env RAM 2 \<noteq> None
   \<and> db outage_env \<and> database_enabled (cfg outage_env)
   \<and> dateNow outage_env RAM \<le> dateNow later_env RAM
   \<and> fst (sendTelegramAlert outage_env RAM (Percent (Num 85)) start) = Inr False
   \<and> lastAlertTimes (snd (sendTelegramAlert outage_env RAM (Percent (Num 85)) start)) RAM = 0
   \<and> filter is_alert_record (added (sendTelegramAlert outage_env RAM (Percent (Num 85))) start)
     = [DbStoreAlert
          \<lparr>a_timestamp = ''2025-01-01 00:00:00'', a_hostname = ''host'', a_alert_type = RAM,
           a_value = Percent (Num 85), a_message = ''alert'', a_sent_successfully = False\<rparr>]
   \<and> FormatAlert RAM (Percent (Num 90))
       \<in> set (added (sendTelegramAlert later_env RAM (Percent (Num 90)))
                (snd (sendTelegramAlert outage_env RAM (Percent (Num 85)) start)))"
proof -
  let ?p = "sendTelegramAlert outage_env RAM (Percent (Num 85))"
  have h1: "monitoring_checkInterval (cfg outage_env) * 10
     \<le> dateNow outage_env RAM div 1000 - lastAlertTimes start RAM"
    by (simp add: outage_env_def sample_env_def sample_config_def start_def)
  have h2: "formatAlert outage_env RAM = Inr ''alert''"
    by (simp add: outage_env_def sample_env_def)
  have h3: "\<forall>i<3. bot_sendMessage outage_env RAM i \<noteq> None"
    by (simp add: outage_env_def sample_env_def)
  have e: "db outage_env \<and> database_enabled (cfg outage_env)"
    "isoTimestamp outage_env (AtStoreAlert RAM) = ''2025-01-01 00:00:00''"
    "hostname (getSystemInfo outage_env (AtStoreAlert RAM)) = ''host''"
    "monitoring_checkInterval (cfg later_env) = monitoring_checkInterval (cfg outage_env)
     \<and> dateNow outage_env RAM \<le> dateNow later_env RAM"
    "lastAlertTimes start RAM = 0"
    by (simp_all add: outage_env_def later_env_def sample_env_def sample_config_def
        sample_system_info_def start_def)
  note T = failed_dispatch[OF h1 h2 h3, where u = "Percent (Num 85)" and env' = later_env
      and u' = "Percent (Num 90)"]
  from T have r: "fst (?p start) = Inr False"
    by (elim conjE)
  from T have l: "lastAlertTimes (snd (?p start)) = lastAlertTimes start"
    by (elim conjE)
  from T have a: "filter is_alert_record (added ?p start)
       = (if db outage_env \<and> database_enabled (cfg outage_env)
          then [DbStoreAlert
                  \<lparr>a_timestamp = isoTimestamp outage_env (AtStoreAlert RAM),
                   a_hostname = hostname (getSystemInfo outage_env (AtStoreAlert RAM)),
                   a_alert_type = RAM, a_value = Percent (Num 85), a_message = ''alert'',
                   a_sent_successfully = False\<rparr>]
          else [])"
    by (elim conjE)
  from T have n: "monitoring_checkInterval (cfg later_env) = monitoring_checkInterval (cfg outage_env)
        \<and> dateNow outage_env RAM \<le> dateNow later_env RAM
        \<longrightarrow> FormatAlert RAM (Percent (Num 90))
              \<in> set (added (sendTelegramAlert later_env RAM (Percent (Num 90))) (snd (?p start)))"
    by (elim conjE)
  from n e(4) have n': "FormatAlert RAM (Percent (Num 90))
              \<in> set (added (sendTelegramAlert later_env RAM (Percent (Num 90))) (snd (?p start)))"
    by (rule mp)
  from a e(1-3) have a': "filter is_alert_record (added ?p start)
     = [DbStoreAlert
          \<lparr>a_timestamp = ''2025-01-01 00:00:00'', a_hostname = ''host'', a_alert_type = RAM,
           a_value = Percent (Num 85), a_message = ''alert'', a_sent_successfully = False\<rparr>]"
    by simp
  from l e(5) have l': "lastAlertTimes (snd (?p start)) RAM = 0"
    by simp
  have h3': "bot_sendMessage outage_env RAM 0 \<noteq> None"
    "bot_sendMessage outage_env RAM 1 \<noteq> None" "bot_sendMessage outage_env RAM 2 \<noteq> None"
    by (simp_all add: outage_env_def sample_env_def)
  from h1 h2 h3' e(1) e(4) r l' a' n' show ?thesis
    by blast
qed


text \<open>
  C4. A dispatch that passes the rate limiter offers the message to the transport at most
  three times, and its deliveries and pauses are a prefix of: attempt, 2000 ms, attempt,
  2000 ms, attempt, 2000 ms. When the attempt numbered \<open>i\<close> (from 0) is the first one accepted,
  the message has been offered exactly \<open>i + 1\<close> times, the dispatch returns \<open>true\<close>, and
  \<open>lastAlertTimes\<close> holds for this kind the time sampled at the start of the dispatch and is
  unchanged for the other kinds.
\<close>

theorem delivery_retries:
  fixes w :: world
  assumes "monitoring_checkInterval (cfg env) * 10 \<le> dateNow env k div 1000 - lastAlertTimes w k"
  shows "length (filter is_send (added (sendTelegramAlert env k u) w)) \<le> 3
     \<and> (\<exists>n m. filter is_delivery (added (sendTelegramAlert env k u) w)
               = take n [BotSend m, Sleep 2000, BotSend m, Sleep 2000, BotSend m, Sleep 2000])
     \<and> (formatAlert env k = Inr m \<and> i < 3 \<and> (\<forall>j<i. bot_sendMessage env k j \<noteq> None)
          \<and> bot_sendMessage env k i = None
        \<longrightarrow> filter is_send (added (sendTelegramAlert env k u) w) = replicate (Suc i) (BotSend m)
            \<and> fst (sendTelegramAlert env k u w) = Inr True
            \<and> lastAlertTimes (snd (sendTelegramAlert env k u w))
              = (lastAlertTimes w)(k := dateNow env k div 1000))"
proof -
  from assms have p:
    "\<not> dateNow env k div 1000 - lastAlertTimes w k < monitoring_checkInterval (cfg env) * 10"
    by simp
  then have a: "added (sendTelegramAlert env k u) w = Dispatch k u # deliverEvents env k u"
    by (simp add: dispatch_added)
  have c1: "length (filter is_send (added (sendTelegramAlert env k u) w)) \<le> 3"
    by (simp add: a sends_deliverEvents split: sum.splits)
  have c2: "\<exists>n m. filter is_delivery (added (sendTelegramAlert env k u) w)
               = take n [BotSend m, Sleep 2000, BotSend m, Sleep 2000, BotSend m, Sleep 2000]"
    using deliveries_deliverEvents[of env k u] by (simp add: a)
  have c3: "filter is_send (added (sendTelegramAlert env k u) w) = replicate (Suc i) (BotSend m)
            \<and> fst (sendTelegramAlert env k u w) = Inr True
            \<and> lastAlertTimes (snd (sendTelegramAlert env k u w))
              = (lastAlertTimes w)(k := dateNow env k div 1000)"
    if h: "formatAlert env k = Inr m \<and> i < 3 \<and> (\<forall>j<i. bot_sendMessage env k j \<noteq> None)
          \<and> bot_sendMessage env k i = None"
  proof -
    from h have "i = 0 \<or> i = 1 \<or> i = 2"
      by auto
    then have n: "(if bot_sendMessage env k 0 = None then 1
                   else if bot_sendMessage env k 1 = None then 2 else 3) = Suc i"
      using h by (elim disjE) auto
    from h have s: "deliverSucceeds env k"
      using \<open>i = 0 \<or> i = 1 \<or> i = 2\<close> by (auto simp: deliverSucceeds_def loopSucceeds_def)
    from h have "filter is_send (deliverEvents env k u) = replicate (Suc i) (BotSend m)"
      by (simp only: sends_deliverEvents n sum.case)
    then have "filter is_send (added (sendTelegramAlert env k u) w) = replicate (Suc i) (BotSend m)"
      by (simp add: a)
    moreover from p s have "fst (sendTelegramAlert env k u w) = Inr True"
      by (simp add: dispatch_result)
    moreover from p s have "lastAlertTimes (snd (sendTelegramAlert env k u w))
              = (lastAlertTimes w)(k := dateNow env k div 1000)"
      by (simp add: dispatch_lastAlertTimes)
    ultimately show ?thesis
      by blast
  qed
  from c1 c2 c3 show ?thesis
    by blast
qed

theorem delivery_retries_witness:
  "monitoring_checkInterval (cfg second_try_env) * 10
     \<le> dateNow second_try_env RAM div 1000 - lastAlertTimes start RAM
   \<and> formatAlert second_try_env RAM = Inr ''alert''
   \<and> bot_sendMessage second_try_env RAM 0 \<noteq> None
   \<and> bot_sendMessage second_try_env RAM 1 = None
   \<and> filter is_send (added (sendTelegramAlert second_try_env RAM (Percent (Num 85))) start)
     = [BotSend ''alert'', BotSend ''alert'']
   \<and> filter is_delivery (added (sendTelegramAlert second_try_env RAM (Percent (Num 85))) start)
     = [BotSend ''alert'', Sleep 2000, BotSend ''alert'']
   \<and> fst (sendTelegramAlert second_try_env RAM (Percent (Num 85)) start) = Inr True
   \<and> lastAlertTimes (snd (sendTelegramAlert second_try_env RAM (Percent (Num 85)) start)) RAM
     = 1735689600
   \<and> lastAlertTimes (snd (sendTelegramAlert second_try_env RAM (Percent (Num 85)) start)) CPU
     = 0"
proof -
  let ?p = "sendTelegramAlert second_try_env RAM (Percent (Num 85))"
  have h1: "monitoring_checkInterval (cfg second_try_env) * 10
     \<le> dateNow second_try_env RAM div 1000 - lastAlertTimes start RAM"
    by (simp add: second_try_env_def sample_env_def sample_config_def start_def)
  have h2: "formatAlert second_try_env RAM = Inr ''alert'' \<and> (1::nat) < 3
      \<and> (\<forall>j<1. bot_sendMessage second_try_env RAM j \<noteq> None)
      \<and> bot_sendMessage second_try_env RAM 1 = None"
    by (simp add: second_try_env_def sample_env_def)
  have e: "dateNow second_try_env RAM div 1000 = 1735689600" "lastAlertTimes start = (\<lambda>k. 0)"
    by (simp_all add: second_try_env_def sample_env_def start_def)
  have d: "filter is_delivery (added ?p start) = [BotSend ''alert'', Sleep 2000, BotSend ''alert'']"
    using h1 h2
    by (simp add: dispatch_added deliverEvents_def loopEvents_def loopSucceeds_def
        counterFails_def second_try_env_def sample_env_def)
  note T = delivery_retries[OF h1, where u = "Percent (Num 85)" and m = "''alert''" and i = 1]
  from T have "formatAlert second_try_env RAM = Inr ''alert'' \<and> (1::nat) < 3
      \<and> (\<forall>j<1. bot_sendMessage second_try_env RAM j \<noteq> None)
      \<and> bot_sendMessage second_try_env RAM 1 = None
      \<longrightarrow> filter is_send (added ?p start) = replicate (Suc 1) (BotSend ''alert'')
          \<and> fst (?p start) = Inr True
          \<and> lastAlertTimes (snd (?p start))
            = (lastAlertTimes start)(RAM := dateNow second_try_env RAM div 1000)"
    by (elim conjE)
  from this h2 have "filter is_send (added ?p start) = replicate (Suc 1) (BotSend ''alert'')
          \<and> fst (?p start) = Inr True
          \<and> lastAlertTimes (snd (?p start))
            = (lastAlertTimes start)(RAM := dateNow second_try_env RAM div 1000)"
    by (rule mp)
  with h1 h2 e d show ?thesis
    by simp
qed

lemma length_insert_desc [simp]: "length (insert_desc key x xs) = Suc (length xs)"
  by (induction xs) simp_all

lemma length_order_by_desc [simp]: "length (order_by_desc key xs) = length xs"
  by (induction xs) simp_all

lemma set_insert_desc [simp]: "set (insert_desc key x xs) = insert x (set xs)"
  by (induction xs) auto

lemma set_order_by_desc [simp]: "set (order_by_desc key xs) = set xs"
  by (induction xs) simp_all

lemma sorted_insert_desc:
  "sorted_wrt (\<lambda>a b. key b \<le> key a) xs
   \<Longrightarrow> sorted_wrt (\<lambda>a b. key b \<le> key a) (insert_desc key x xs)"
  by (induction xs) (auto simp: less_imp_le)

lemma sorted_order_by_desc: "sorted_wrt (\<lambda>a b. key b \<le> key a) (order_by_desc key xs)"
  by (induction xs) (simp_all add: sorted_insert_desc)

lemma sorted_take_desc:
  "sorted_wrt (\<lambda>a b. key b \<le> key a) (take n (order_by_desc key xs))"
  using sorted_order_by_desc[of key xs] by (rule sorted_wrt_take)

lemma order_by_desc_newest:
  "\<forall>y\<in>set xs. key y < key x \<Longrightarrow> order_by_desc key (xs @ [x]) = x # order_by_desc key xs"
  by (induction xs) simp_all

lemma stamp_less: "''2025-01-01 00:00:00'' < ''2025-01-02 00:00:00''"
  "''2024-12-31 23:59:00'' < ''2025-01-01 00:00:00''"
  by simp_all


lemma getRecentMetrics_rows:
  "fst (sqlite_getRecentMetrics None limit d)
   = Inr (take (limit_or_default limit)
            (order_by_desc (\<lambda>row. m_timestamp (snd row)) (metrics_table d)))"
  by (simp add: sqlite_getRecentMetrics_def)

lemma getRecentAlerts_rows:
  "fst (sqlite_getRecentAlerts None limit d)
   = Inr (take (limit_or_default limit) (order_by_desc r_timestamp (alerts_table d)))"
  by (simp add: sqlite_getRecentAlerts_def)

lemma storeMetrics_table:
  "metrics_table (snd (sqlite_storeMetrics None r d))
   = metrics_table d @ [(Suc (metrics_seq d), r)]"
  by (simp add: sqlite_storeMetrics_def Let_def)

text \<open>
  C8, as claimed, fails. The store holds one row stamped 2025-01-02 00:00:00; a record
  stamped 2025-01-01 00:00:00 is appended and receives the identifier 2;
  \<open>getRecentMetrics(1)\<close> then returns the row that was there before, not the one appended.
\<close>

theorem round_trip_counterexample:
  "fst (sqlite_storeMetrics None sample_record ahead_db) = Inr 2
   \<and> fst (sqlite_getRecentMetrics None (Some 1)
           (snd (sqlite_storeMetrics None sample_record ahead_db)))
     = Inr [(1, sample_record\<lparr>m_timestamp := ''2025-01-02 00:00:00''\<rparr>)]
   \<and> sample_record\<lparr>m_timestamp := ''2025-01-02 00:00:00''\<rparr> \<noteq> sample_record"
  by (simp add: sqlite_storeMetrics_def sqlite_getRecentMetrics_def limit_or_default_def
      ahead_db_def sample_record_def Let_def)

text \<open>
  C8, amended. For every store state whose rows all carry a timestamp strictly before that
  of the record, a metric record that \<open>storeMetrics\<close> appends receives the next identifier and
  \<open>getRecentMetrics(1)\<close> then returns exactly that row, equal to the record in every field.
  For every store state and every limit (100 when none is given), \<open>getRecentMetrics\<close> and
  \<open>getRecentAlerts\<close> return rows of the table, as many as the limit allows and the table
  holds, in descending order of timestamp.
\<close>

theorem persistence_round_trip:
  assumes "\<forall>row\<in>set (metrics_table d). m_timestamp (snd row) < m_timestamp r"
  shows "fst (sqlite_storeMetrics None r d) = Inr (Suc (metrics_seq d))
     \<and> fst (sqlite_getRecentMetrics None (Some 1) (snd (sqlite_storeMetrics None r d)))
       = Inr [(Suc (metrics_seq d), r)]
     \<and> (\<exists>rows. fst (sqlite_getRecentMetrics None limit d0) = Inr rows
          \<and> length rows = min (limit_or_default limit) (length (metrics_table d0))
          \<and> set rows \<subseteq> set (metrics_table d0)
          \<and> sorted_wrt (\<lambda>a b. m_timestamp (snd b) \<le> m_timestamp (snd a)) rows)
     \<and> (\<exists>rows. fst (sqlite_getRecentAlerts None limit d0) = Inr rows
          \<and> length rows = min (limit_or_default limit) (length (alerts_table d0))
          \<and> set rows \<subseteq> set (alerts_table d0)
          \<and> sorted_wrt (\<lambda>a b. r_timestamp b \<le> r_timestamp a) rows)"
proof (intro conjI)
  show "fst (sqlite_storeMetrics None r d) = Inr (Suc (metrics_seq d))"
    by (simp add: sqlite_storeMetrics_def Let_def)
  from assms
  have "order_by_desc (\<lambda>row. m_timestamp (snd row)) (metrics_table d @ [(Suc (metrics_seq d), r)])
        = (Suc (metrics_seq d), r) # order_by_desc (\<lambda>row. m_timestamp (snd row)) (metrics_table d)"
    by (intro order_by_desc_newest) simp
  then show "fst (sqlite_getRecentMetrics None (Some 1) (snd (sqlite_storeMetrics None r d)))
       = Inr [(Suc (metrics_seq d), r)]"
    by (simp add: getRecentMetrics_rows storeMetrics_table limit_or_default_def)
  let ?m = "take (limit_or_default limit)
              (order_by_desc (\<lambda>row. m_timestamp (snd row)) (metrics_table d0))"
  have "set ?m \<subseteq> set (metrics_table d0)"
    using set_take_subset[of "limit_or_default limit"
        "order_by_desc (\<lambda>row. m_timestamp (snd row)) (metrics_table d0)"]
    by simp
  moreover have "sorted_wrt (\<lambda>a b. m_timestamp (snd b) \<le> m_timestamp (snd a)) ?m"
    by (rule sorted_take_desc)
  moreover have "length ?m = min (limit_or_default limit) (length (metrics_table d0))"
    by simp
  ultimately show "\<exists>rows. fst (sqlite_getRecentMetrics None limit d0) = Inr rows
          \<and> length rows = min (limit_or_default limit) (length (metrics_table d0))
          \<and> set rows \<subseteq> set (metrics_table d0)
          \<and> sorted_wrt (\<lambda>a b. m_timestamp (snd b) \<le> m_timestamp (snd a)) rows"
    unfolding getRecentMetrics_rows by blast
  let ?a = "take (limit_or_default limit) (order_by_desc r_timestamp (alerts_table d0))"
  have "set ?a \<subseteq> set (alerts_table d0)"
    using set_take_subset[of "limit_or_default limit"
        "order_by_desc r_timestamp (alerts_table d0)"]
    by simp
  moreover have "sorted_wrt (\<lambda>a b. r_timestamp b \<le> r_timestamp a) ?a"
    by (rule sorted_take_desc)
  moreover have "length ?a = min (limit_or_default limit) (length (alerts_table d0))"
    by simp
  ultimately show "\<exists>rows. fst (sqlite_getRecentAlerts None limit d0) = Inr rows
          \<and> length rows = min (limit_or_default limit) (length (alerts_table d0))
          \<and> set rows \<subseteq> set (alerts_table d0)
          \<and> sorted_wrt (\<lambda>a b. r_timestamp b \<le> r_timestamp a) rows"
    unfolding getRecentAlerts_rows by blast
qed

theorem persistence_round_trip_witness:
  "metrics_table behind_db = [(1, sample_record\<lparr>m_timestamp := ''2024-12-31 23:59:00''\<rparr>)]
   \<and> ''2024-12-31 23:59:00'' < m_timestamp sample_record
   \<and> fst (sqlite_storeMetrics None sample_record behind_db) = Inr 2
   \<and> fst (sqlite_getRecentMetrics None (Some 1)
           (snd (sqlite_storeMetrics None sample_record behind_db)))
     = Inr [(2, sample_record)]"
proof -
  have h: "\<forall>row\<in>set (metrics_table behind_db). m_timestamp (snd row) < m_timestamp sample_record"
    by (simp add: behind_db_def sample_record_def)
  have e: "metrics_table behind_db = [(1, sample_record\<lparr>m_timestamp := ''2024-12-31 23:59:00''\<rparr>)]"
    "''2024-12-31 23:59:00'' < m_timestamp sample_record" "Suc (metrics_seq behind_db) = 2"
    by (simp_all add: behind_db_def sample_record_def)
  note T = persistence_round_trip[OF h, where limit = "Some 1" and ?d0.0 = behind_db]
  from T have "fst (sqlite_storeMetrics None sample_record behind_db)
               = Inr (Suc (metrics_seq behind_db))"
    by (elim conjE)
  moreover from T have "fst (sqlite_getRecentMetrics None (Some 1)
           (snd (sqlite_storeMetrics None sample_record behind_db)))
     = Inr [(Suc (metrics_seq behind_db), sample_record)]"
    by (elim conjE)
  ultimately show ?thesis
    using e by simp
qed

end
